theory Spec2Isabelle
  imports Complex_Main "HOL-Library.Monad_Syntax"
begin

section \<open>C doubles: reals with the IEEE special values\<close>

text \<open>
  Both source files compute with C \<^verbatim>\<open>double\<close> and test the results with
  \<^verbatim>\<open>isfinite\<close>. A \<open>dbl\<close> is a real number or one of the three special values
  of IEEE 754. Finite results are exact (no rounding, no overflow, no signed zero: a zero
  divisor counts as \<open>+0\<close>); the special values follow the IEEE rules of
  \<^verbatim>\<open>+ - * /\<close>, \<^verbatim>\<open>exp\<close>, \<^verbatim>\<open>log\<close> and \<^verbatim>\<open>sqrt\<close>.
\<close>

datatype dbl = Fin real | PInf | NInf | NaN

fun isfinite :: "dbl \<Rightarrow> bool" where
  "isfinite (Fin _) = True"
| "isfinite _ = False"

instantiation dbl :: "{zero, one, plus, minus, uminus, times, inverse}"
begin

definition zero_dbl :: dbl where
  "zero_dbl = Fin 0"

definition one_dbl :: dbl where
  "one_dbl = Fin 1"

fun plus_dbl :: "dbl \<Rightarrow> dbl \<Rightarrow> dbl" where
  "plus_dbl (Fin a) (Fin b) = Fin (a + b)"
| "plus_dbl NaN _ = NaN"
| "plus_dbl _ NaN = NaN"
| "plus_dbl PInf NInf = NaN"
| "plus_dbl NInf PInf = NaN"
| "plus_dbl PInf _ = PInf"
| "plus_dbl _ PInf = PInf"
| "plus_dbl NInf _ = NInf"
| "plus_dbl _ NInf = NInf"

fun uminus_dbl :: "dbl \<Rightarrow> dbl" where
  "uminus_dbl (Fin a) = Fin (- a)"
| "uminus_dbl PInf = NInf"
| "uminus_dbl NInf = PInf"
| "uminus_dbl NaN = NaN"

definition minus_dbl :: "dbl \<Rightarrow> dbl \<Rightarrow> dbl" where
  "minus_dbl x y = x + (- y)"

fun times_dbl :: "dbl \<Rightarrow> dbl \<Rightarrow> dbl" where
  "times_dbl (Fin a) (Fin b) = Fin (a * b)"
| "times_dbl NaN _ = NaN"
| "times_dbl _ NaN = NaN"
| "times_dbl (Fin a) PInf = (if a = 0 then NaN else if 0 < a then PInf else NInf)"
| "times_dbl (Fin a) NInf = (if a = 0 then NaN else if 0 < a then NInf else PInf)"
| "times_dbl PInf (Fin b) = (if b = 0 then NaN else if 0 < b then PInf else NInf)"
| "times_dbl NInf (Fin b) = (if b = 0 then NaN else if 0 < b then NInf else PInf)"
| "times_dbl PInf PInf = PInf"
| "times_dbl PInf NInf = NInf"
| "times_dbl NInf PInf = NInf"
| "times_dbl NInf NInf = PInf"

fun divide_dbl :: "dbl \<Rightarrow> dbl \<Rightarrow> dbl" where
  "divide_dbl (Fin a) (Fin b) =
     (if b \<noteq> 0 then Fin (a / b)
      else if a = 0 then NaN else if 0 < a then PInf else NInf)"
| "divide_dbl NaN _ = NaN"
| "divide_dbl _ NaN = NaN"
| "divide_dbl (Fin a) PInf = Fin 0"
| "divide_dbl (Fin a) NInf = Fin 0"
| "divide_dbl PInf (Fin b) = (if 0 \<le> b then PInf else NInf)"
| "divide_dbl NInf (Fin b) = (if 0 \<le> b then NInf else PInf)"
| "divide_dbl _ _ = NaN"

definition inverse_dbl :: "dbl \<Rightarrow> dbl" where
  "inverse_dbl x = Fin 1 div x"

instance ..

end

fun dexp :: "dbl \<Rightarrow> dbl" where
  "dexp (Fin a) = Fin (exp a)"
| "dexp PInf = PInf"
| "dexp NInf = Fin 0"
| "dexp NaN = NaN"

fun dlog :: "dbl \<Rightarrow> dbl" where
  "dlog (Fin a) = (if 0 < a then Fin (ln a) else if a = 0 then NInf else NaN)"
| "dlog PInf = PInf"
| "dlog NInf = NaN"
| "dlog NaN = NaN"

fun dsqrt :: "dbl \<Rightarrow> dbl" where
  "dsqrt (Fin a) = (if 0 \<le> a then Fin (sqrt a) else NaN)"
| "dsqrt PInf = PInf"
| "dsqrt NInf = NaN"
| "dsqrt NaN = NaN"

section \<open>The integrands\<close>

text \<open>
  Both files define \<^verbatim>\<open>NDIntegrand(xdim, numx, x, par, fdim, fval)\<close>: \<^verbatim>\<open>x\<close> holds
  \<^verbatim>\<open>numx\<close> points of \<^verbatim>\<open>xdim\<close> coordinates each, \<^verbatim>\<open>par\<close> is the coefficient
  array, and one value per point is stored in \<^verbatim>\<open>fval\<close>. The pointer \<^verbatim>\<open>x\<close> is
  the rest of the buffer: \<^verbatim>\<open>*x\<close> is its head and \<^verbatim>\<open>x++\<close> its tail. The sample
  coordinates are finite reals; the coefficients are doubles.
\<close>

definition mu :: "real list" where
  "mu = [1, -1]"

text \<open>The loop over \<^verbatim>\<open>indd\<close>: the product and the sum of squares of the shifted coordinates.\<close>

fun coord_loop :: "nat \<Rightarrow> real list \<Rightarrow> real \<Rightarrow> real \<times> real \<Rightarrow> real \<times> real" where
  "coord_loop 0 x m (xcprod, xc2sum) = (xcprod, xc2sum)"
| "coord_loop (Suc n) x m (xcprod, xc2sum) =
     (let xc = hd x + m
      in coord_loop n (tl x) m (xcprod * xc, xc2sum + xc * xc))"

text \<open>
  The two densities of class \<^verbatim>\<open>indmu\<close>. After \<^verbatim>\<open>params += indmu\<close> the cell
  \<^verbatim>\<open>params[j]\<close> is cell \<open>indmu + j\<close> of the array. Both files compute
  \<^verbatim>\<open>psx\<close> by the same expression; \<^verbatim>\<open>pisx\<close> exists in dinidlGaussTheta.c only.
\<close>

definition psx_val :: "dbl list \<Rightarrow> nat \<Rightarrow> real \<Rightarrow> real \<Rightarrow> dbl" where
  "psx_val params indmu xc2sum xcprod =
     params ! (indmu + 2)
     * dexp (params ! (indmu + 4) * Fin xc2sum + params ! (indmu + 6) * Fin xcprod)"

definition pisx_val :: "dbl list \<Rightarrow> nat \<Rightarrow> real \<Rightarrow> dbl" where
  "pisx_val params indmu xc2sum =
     params ! (indmu + 0) * dexp (params ! (indmu + 8) * Fin xc2sum)"

subsection \<open>dinidlGaussTheta.c\<close>

text \<open>One pass of the loop over \<^verbatim>\<open>indmu\<close>, up to the test that may leave it.\<close>

definition class_step_di ::
  "dbl list \<Rightarrow> nat \<Rightarrow> real list \<Rightarrow> nat \<Rightarrow> dbl \<times> dbl \<times> dbl \<Rightarrow> dbl \<times> dbl \<times> dbl" where
  "class_step_di params xdim x indmu st =
     (case st of (dinow, px, pix) \<Rightarrow>
      (case coord_loop xdim x (mu ! indmu) (1, 0) of (xcprod, xc2sum0) \<Rightarrow>
       (let xc2sum = xc2sum0 * (- 0.5);
            psx = psx_val params indmu xc2sum xcprod;
            pisx = pisx_val params indmu xc2sum;
            px = px + psx;
            pix = pix + pisx;
            dinow = dinow + psx * dlog (psx / pisx)
        in (dinow, px, pix))))"

text \<open>The loop over \<^verbatim>\<open>indmu\<close> with its \<^verbatim>\<open>break\<close>.\<close>

fun class_loop_di ::
  "dbl list \<Rightarrow> nat \<Rightarrow> real list \<Rightarrow> nat list \<Rightarrow> dbl \<times> dbl \<times> dbl \<Rightarrow> dbl \<times> dbl \<times> dbl" where
  "class_loop_di params xdim x [] st = st"
| "class_loop_di params xdim x (indmu # rest) st =
     (let st' = class_step_di params xdim x indmu st
      in if \<not> isfinite (fst st') then st' else class_loop_di params xdim x rest st')"

text \<open>The body of the loop over \<^verbatim>\<open>indx\<close>: the value stored in \<^verbatim>\<open>dival[indx]\<close>.\<close>

definition point_di :: "dbl list \<Rightarrow> nat \<Rightarrow> real list \<Rightarrow> dbl" where
  "point_di params xdim x =
     (case class_loop_di params xdim x [0, 1] (Fin 0, Fin 0, Fin 0) of (dinow, px, pix) \<Rightarrow>
        if isfinite dinow
        then (let dinow = dinow - px * dlog (px / pix)
              in if isfinite dinow then dinow else Fin 0)
        else Fin 0)"

fun NDIntegrand_loop_di :: "nat \<Rightarrow> nat \<Rightarrow> real list \<Rightarrow> dbl list \<Rightarrow> dbl list" where
  "NDIntegrand_loop_di xdim 0 x params = []"
| "NDIntegrand_loop_di xdim (Suc n) x params =
     point_di params xdim x # NDIntegrand_loop_di xdim n (drop xdim x) params"

text \<open>The function always returns 0; its result here is the contents of \<^verbatim>\<open>dival\<close>.\<close>

definition NDIntegrand_di ::
  "nat \<Rightarrow> nat \<Rightarrow> real list \<Rightarrow> dbl list \<Rightarrow> nat \<Rightarrow> dbl list" where
  "NDIntegrand_di xdim numx x par didim = NDIntegrand_loop_di xdim numx x par"

subsection \<open>infoGauss.c\<close>

definition class_step_info ::
  "dbl list \<Rightarrow> nat \<Rightarrow> real list \<Rightarrow> nat \<Rightarrow> dbl \<times> dbl \<Rightarrow> dbl \<times> dbl" where
  "class_step_info params xdim x indmu st =
     (case st of (infonow, px) \<Rightarrow>
      (case coord_loop xdim x (mu ! indmu) (1, 0) of (xcprod, xc2sum0) \<Rightarrow>
       (let xc2sum = xc2sum0 * (- 0.5);
            psx = psx_val params indmu xc2sum xcprod;
            px = px + psx;
            infonow = infonow + psx * dlog psx
        in (infonow, px))))"

fun class_loop_info ::
  "dbl list \<Rightarrow> nat \<Rightarrow> real list \<Rightarrow> nat list \<Rightarrow> dbl \<times> dbl \<Rightarrow> dbl \<times> dbl" where
  "class_loop_info params xdim x [] st = st"
| "class_loop_info params xdim x (indmu # rest) st =
     (let st' = class_step_info params xdim x indmu st
      in if \<not> isfinite (fst st') then st' else class_loop_info params xdim x rest st')"

definition point_info :: "dbl list \<Rightarrow> nat \<Rightarrow> real list \<Rightarrow> dbl" where
  "point_info params xdim x =
     (case class_loop_info params xdim x [0, 1] (Fin 0, Fin 0) of (infonow, px) \<Rightarrow>
        if isfinite infonow
        then (let infonow = infonow - px * dlog px
              in if isfinite infonow then infonow else Fin 0)
        else Fin 0)"

fun NDIntegrand_loop_info :: "nat \<Rightarrow> nat \<Rightarrow> real list \<Rightarrow> dbl list \<Rightarrow> dbl list" where
  "NDIntegrand_loop_info xdim 0 x params = []"
| "NDIntegrand_loop_info xdim (Suc n) x params =
     point_info params xdim x # NDIntegrand_loop_info xdim n (drop xdim x) params"

definition NDIntegrand_info ::
  "nat \<Rightarrow> nat \<Rightarrow> real list \<Rightarrow> dbl list \<Rightarrow> nat \<Rightarrow> dbl list" where
  "NDIntegrand_info xdim numx x par infodim = NDIntegrand_loop_info xdim numx x par"

section \<open>The integrator\<close>

text \<open>
  \<^verbatim>\<open>hcubature_v(fdim, f, fdata, dim, xmin, xmax, maxEval, reqAbsError, reqRelError,
  norm, val, err)\<close> belongs to the Cubature library and is a parameter of everything
  below. It is given a vectorised integrand and returns an estimate and an error
  estimate, both finite.
\<close>

datatype error_norm = ERROR_INDIVIDUAL | ERROR_PAIRED | ERROR_L2 | ERROR_L1 | ERROR_LINF

record IntegralEstimate =
  val :: real
  err :: real

type_synonym integrand_v = "nat \<Rightarrow> nat \<Rightarrow> real list \<Rightarrow> dbl list \<Rightarrow> nat \<Rightarrow> dbl list"

type_synonym integrator =
  "nat \<Rightarrow> integrand_v \<Rightarrow> dbl list \<Rightarrow> nat \<Rightarrow> real list \<Rightarrow> real list
     \<Rightarrow> nat \<Rightarrow> real \<Rightarrow> real \<Rightarrow> error_norm \<Rightarrow> IntegralEstimate"

section \<open>lossAtThreshold: diTheta\<close>

text \<open>
  \<^verbatim>\<open>par\<close> is the input array \<open>[p, rho1, rho2]\<close>. The local array
  \<^verbatim>\<open>params[10]\<close> starts uninitialised in C; every cell is assigned before the first
  integrator call reads it.
\<close>

definition diTheta_params2D :: "real \<Rightarrow> real list \<Rightarrow> dbl list" where
  "diTheta_params2D th par =
     (let params = replicate 10 (Fin 0);
          params = params[0 := Fin (par ! 0)];
          params = params[1 := Fin 1 - Fin (par ! 0)];
          params = params[4 := Fin 1 / (Fin 1 - Fin (par ! 1) * Fin (par ! 1))];
          params = params[5 := Fin 1 / (Fin 1 - Fin (par ! 2) * Fin (par ! 2))];
          params = params[2 := params ! 0 * dsqrt (params ! 4) / (Fin 2 * Fin pi)];
          params = params[3 := params ! 1 * dsqrt (params ! 5) / (Fin 2 * Fin pi)];
          params = params[6 := Fin (par ! 1) * params ! 4];
          params = params[7 := Fin (par ! 2) * params ! 5];
          params = params[8 := Fin th];
          params = params[9 := Fin th]
      in params)"

definition diTheta_params1D :: "dbl list \<Rightarrow> real list \<Rightarrow> dbl list" where
  "diTheta_params1D params par =
     (let params = params[0 := params ! 1];
          params = params[1 := Fin (par ! 0)];
          params = params[4 := Fin 1];
          params = params[5 := Fin 1];
          params = params[2 := params ! 0 / dsqrt (Fin 2 * Fin pi)];
          params = params[3 := params ! 1 / dsqrt (Fin 2 * Fin pi)];
          params = params[6 := Fin 0];
          params = params[7 := Fin 0]
      in params)"

definition diTheta :: "integrator \<Rightarrow> real \<Rightarrow> real list \<Rightarrow> real" where
  "diTheta hcubature_v th par =
     (let xmin = [- 5, - 5];
          xmax = [5, 5];
          params = diTheta_params2D th par;
          dival2D = val (hcubature_v 1 NDIntegrand_di params 2 xmin xmax
                           1000 (1 / 10 ^ 6) (1 / 10 ^ 3) ERROR_INDIVIDUAL);
          params = diTheta_params1D params par;
          dival1D = val (hcubature_v 1 NDIntegrand_di params 1 xmin xmax
                           1000 (1 / 10 ^ 6) (1 / 10 ^ 3) ERROR_INDIVIDUAL)
      in dival1D + dival2D)"

section \<open>MutualInformation: mexFunction of infoGauss.c\<close>

text \<open>
  Neither file has an error path: no input is tested and nothing is raised, so an entry
  point always returns on the right of the sum.
\<close>

datatype error = DomainError

definition infoGauss_params1D :: "dbl list \<Rightarrow> dbl list" where
  "infoGauss_params1D params =
     (let params = params[4 := Fin 1];
          params = params[5 := Fin 1];
          params = params[2 := params ! 0 / dsqrt (Fin 2 * Fin pi)];
          params = params[3 := params ! 1 / dsqrt (Fin 2 * Fin pi)];
          params = params[6 := Fin 0];
          params = params[7 := Fin 0]
      in params)"

definition infoGauss_params2D :: "dbl list \<Rightarrow> real list \<Rightarrow> dbl list" where
  "infoGauss_params2D params par =
     (let params = params[4 := Fin 1 / (Fin 1 - Fin (par ! 1) * Fin (par ! 1))];
          params = params[5 := Fin 1 / (Fin 1 - Fin (par ! 2) * Fin (par ! 2))];
          params = params[2 := params ! 0 * dsqrt (params ! 4) / (Fin 2 * Fin pi)];
          params = params[3 := params ! 1 * dsqrt (params ! 5) / (Fin 2 * Fin pi)];
          params = params[6 := Fin (par ! 1) * params ! 4];
          params = params[7 := Fin (par ! 2) * params ! 5]
      in params)"

text \<open>
  The coefficient array and the dimension handed to the integrator. \<^verbatim>\<open>parnum\<close> is
  the dimension vector of the input array (rows, columns).
\<close>

definition infoGauss_params :: "int list \<Rightarrow> real list \<Rightarrow> dbl list \<times> int list" where
  "infoGauss_params parnum par =
     (let parnum = (if parnum ! 0 < parnum ! 1 then parnum[0 := parnum ! 1] else parnum);
          params = replicate 8 (Fin 0);
          params = params[0 := Fin (par ! 0)];
          params = params[1 := Fin 1 - Fin (par ! 0)]
      in if parnum ! 0 = 1
         then (infoGauss_params1D params, parnum)
         else (infoGauss_params2D params par, parnum[0 := 2]))"

definition mexFunction_infoGauss :: "integrator \<Rightarrow> int list \<Rightarrow> real list \<Rightarrow> error + dbl" where
  "mexFunction_infoGauss hcubature_v parnum par =
     (let xmin = [- 5, - 5];
          xmax = [5, 5]
      in case infoGauss_params parnum par of (params, parnum) \<Rightarrow>
           (let infoval = Fin (val (hcubature_v 1 NDIntegrand_info params (nat (parnum ! 0))
                                      xmin xmax 1000 (1 / 10 ^ 6) (1 / 10 ^ 3) ERROR_INDIVIDUAL));
                infoval = infoval
                          + (- (params ! 0) * dlog (params ! 0) - params ! 1 * dlog (params ! 1))
            in Inr infoval))"

section \<open>InformationLossMinimization: mexFunction of dinidlGaussTheta.c\<close>

text \<open>
  The six locals \<^verbatim>\<open>thl, thm, thr, dil, dim, dir\<close> of the source (\<open>thm\<close> is reserved
  in Isabelle, hence the underscores).
\<close>

record bracket =
  th_l :: real
  th_m :: real
  th_r :: real
  di_l :: real
  di_m :: real
  di_r :: real

text \<open>The two \<^verbatim>\<open>while\<close> loops have no bound, so they are partial functions.\<close>

partial_function (option) bracket_lower :: "(real \<Rightarrow> real) \<Rightarrow> bracket \<Rightarrow> bracket option" where
  "bracket_lower f b =
     (if di_l b < di_m b
      then bracket_lower f
             \<lparr>th_l = th_l b * 2, th_m = th_l b, th_r = th_m b,
              di_l = f (th_l b * 2), di_m = di_l b, di_r = di_m b\<rparr>
      else Some b)"

partial_function (option) bracket_upper :: "(real \<Rightarrow> real) \<Rightarrow> bracket \<Rightarrow> bracket option" where
  "bracket_upper f b =
     (if di_r b < di_m b
      then bracket_upper f
             \<lparr>th_l = th_m b, th_m = th_r b, th_r = th_r b * 2,
              di_l = di_m b, di_m = di_r b, di_r = f (th_r b * 2)\<rparr>
      else Some b)"

definition bracket_search :: "(real \<Rightarrow> real) \<Rightarrow> bracket option" where
  "bracket_search f =
     do {
       b \<leftarrow> bracket_lower f
              \<lparr>th_l = - 0.5, th_m = 0.5, th_r = 1.5,
               di_l = f (- 0.5), di_m = f 0.5, di_r = f 1.5\<rparr>;
       bracket_upper f b
     }"

text \<open>
  The minimizer belongs to GSL and is a parameter: its state \<open>'s\<close> and the five
  functions the source calls on it, together with \<^verbatim>\<open>gsl_min_test_interval\<close>.
\<close>

datatype gsl_status = GSL_SUCCESS | GSL_CONTINUE

record 's gsl_min =
  fminimizer_set :: "(real \<Rightarrow> real) \<Rightarrow> real \<Rightarrow> real \<Rightarrow> real \<Rightarrow> 's"
  fminimizer_iterate :: "'s \<Rightarrow> 's"
  fminimizer_x_lower :: "'s \<Rightarrow> real"
  fminimizer_x_upper :: "'s \<Rightarrow> real"
  fminimizer_f_minimum :: "'s \<Rightarrow> real"
  min_test_interval :: "real \<Rightarrow> real \<Rightarrow> real \<Rightarrow> real \<Rightarrow> gsl_status"

text \<open>
  The \<^verbatim>\<open>do ... while\<close> loop. The source declares \<^verbatim>\<open>iter = 0\<close> and
  \<^verbatim>\<open>max_iter = 1000\<close> and tests \<^verbatim>\<open>iter < max_iter\<close>, and no statement of the
  loop assigns \<^verbatim>\<open>iter\<close>: the recursive call passes it on as it is.
\<close>

partial_function (option) minimize_loop ::
  "'s gsl_min \<Rightarrow> int \<Rightarrow> int \<Rightarrow> 's \<Rightarrow> 's option" where
  "minimize_loop G iter max_iter s =
     (let s = fminimizer_iterate G s;
          thl = fminimizer_x_lower G s;
          thr = fminimizer_x_upper G s
      in if min_test_interval G thl thr (1 / 10 ^ 6) (1 / 10 ^ 3) = GSL_CONTINUE \<and> iter < max_iter
         then minimize_loop G iter max_iter s
         else Some s)"

definition mexFunction_dinidl ::
  "integrator \<Rightarrow> 's gsl_min \<Rightarrow> real list \<Rightarrow> (error + real) option" where
  "mexFunction_dinidl hcubature_v G par =
     do {
       b \<leftarrow> bracket_search (\<lambda>th. diTheta hcubature_v th par);
       let iter = 0;
       let max_iter = 1000;
       let s = fminimizer_set G (\<lambda>th. diTheta hcubature_v th par) (th_m b) (th_l b) (th_r b);
       s \<leftarrow> minimize_loop G iter max_iter s;
       Some (Inr (fminimizer_f_minimum G s))
     }"

section \<open>Auxiliary definitions for the properties\<close>

text \<open>The stored loss values of a bracket are the values of \<open>f\<close> at its three points.\<close>

definition evaluated :: "(real \<Rightarrow> real) \<Rightarrow> bracket \<Rightarrow> bool" where
  "evaluated f b \<longleftrightarrow> di_l b = f (th_l b) \<and> di_m b = f (th_m b) \<and> di_r b = f (th_r b)"

text \<open>A sample loss function with its minimum at 3, to run the bracket search on.\<close>

definition parabola :: "real \<Rightarrow> real" where
  "parabola th = (th - 3) * (th - 3)"

text \<open>Another one with its minimum at -3, which sends the search to the left.\<close>

definition parabola_left :: "real \<Rightarrow> real" where
  "parabola_left th = (th + 3) * (th + 3)"

text \<open>The three points of a bracket are in increasing order.\<close>

definition ordered :: "bracket \<Rightarrow> bool" where
  "ordered b \<longleftrightarrow> th_l b < th_m b \<and> th_m b < th_r b"

text \<open>
  The inputs both entry points are meant for: \<open>[p, rho1, rho2]\<close> with a mixing weight
  strictly between 0 and 1 and correlations strictly between -1 and 1.
\<close>

definition valid_params :: "real list \<Rightarrow> bool" where
  "valid_params par \<longleftrightarrow>
     length par = 3 \<and> 0 < par ! 0 \<and> par ! 0 < 1 \<and> \<bar>par ! 1\<bar> < 1 \<and> \<bar>par ! 2\<bar> < 1"

text \<open>
  The coefficient cells \<open>[p1, p2, w1, w2, a1, a2, b1, b2]\<close> as real numbers, for two
  dimensions and for one.
\<close>

definition coeffs2D :: "real \<Rightarrow> real \<Rightarrow> real \<Rightarrow> real list" where
  "coeffs2D p rho1 rho2 =
     [p, 1 - p,
      p * sqrt (1 / (1 - rho1 * rho1)) / (2 * pi),
      (1 - p) * sqrt (1 / (1 - rho2 * rho2)) / (2 * pi),
      1 / (1 - rho1 * rho1), 1 / (1 - rho2 * rho2),
      rho1 * (1 / (1 - rho1 * rho1)), rho2 * (1 / (1 - rho2 * rho2))]"

definition coeffs1D :: "real \<Rightarrow> real list" where
  "coeffs1D p = [p, 1 - p, p / sqrt (2 * pi), (1 - p) / sqrt (2 * pi), 1, 1, 0, 0]"

text \<open>
  The densities and the two pointwise values over the reals, with no test for finiteness:
  \<open>psx k = w k * exp (- a k * S / 2 + b k * P)\<close> and
  \<open>pisx k = p k * exp (- theta k * S / 2)\<close>, where \<open>P\<close> and \<open>S\<close> are the product and
  the sum of squares of the coordinates shifted by the mean of class \<open>k\<close>.
\<close>

definition psx_real :: "real list \<Rightarrow> nat \<Rightarrow> real list \<Rightarrow> nat \<Rightarrow> real" where
  "psx_real c xdim x k =
     (case coord_loop xdim x (mu ! k) (1, 0) of (P, S) \<Rightarrow>
        c ! (k + 2) * exp (- 0.5 * c ! (k + 4) * S + c ! (k + 6) * P))"

definition pisx_real :: "real list \<Rightarrow> nat \<Rightarrow> real list \<Rightarrow> nat \<Rightarrow> real" where
  "pisx_real c xdim x k =
     (case coord_loop xdim x (mu ! k) (1, 0) of (P, S) \<Rightarrow>
        c ! k * exp (- 0.5 * c ! (k + 8) * S))"

definition di_formula :: "real list \<Rightarrow> nat \<Rightarrow> real list \<Rightarrow> real" where
  "di_formula c xdim x =
     (let px = psx_real c xdim x 0 + psx_real c xdim x 1;
          pix = pisx_real c xdim x 0 + pisx_real c xdim x 1
      in psx_real c xdim x 0 * ln (psx_real c xdim x 0 / pisx_real c xdim x 0)
         + psx_real c xdim x 1 * ln (psx_real c xdim x 1 / pisx_real c xdim x 1)
         - px * ln (px / pix))"

definition info_formula :: "real list \<Rightarrow> nat \<Rightarrow> real list \<Rightarrow> real" where
  "info_formula c xdim x =
     (let px = psx_real c xdim x 0 + psx_real c xdim x 1
      in psx_real c xdim x 0 * ln (psx_real c xdim x 0)
         + psx_real c xdim x 1 * ln (psx_real c xdim x 1)
         - px * ln px)"

text \<open>
  A different treatment of a term that is not finite, to compare \<open>point_info\<close> with:
  each class term is computed on its own and counts as 0 when it is not finite, the
  other class term is kept, and the final \<open>px * log px\<close> is subtracted.
\<close>

definition point_info_per_term :: "dbl list \<Rightarrow> nat \<Rightarrow> real list \<Rightarrow> dbl" where
  "point_info_per_term params xdim x =
     (let psx0 = (case coord_loop xdim x (mu ! 0) (1, 0) of (xcprod, xc2sum) \<Rightarrow>
                    psx_val params 0 (xc2sum * (- 0.5)) xcprod);
          psx1 = (case coord_loop xdim x (mu ! 1) (1, 0) of (xcprod, xc2sum) \<Rightarrow>
                    psx_val params 1 (xc2sum * (- 0.5)) xcprod);
          term0 = psx0 * dlog psx0;
          term1 = psx1 * dlog psx1;
          px = psx0 + psx1
      in (if isfinite term0 then term0 else Fin 0)
         + (if isfinite term1 then term1 else Fin 0)
         - px * dlog px)"

text \<open>
  Two stand-ins for the libraries, to run the entry points on: an integrator that
  evaluates the integrand once, at the centre of the box, and a minimizer that never
  moves its bracket, tested with the interval test as the GSL manual gives it
  (\<open>|a - b| < epsabs + epsrel * min (|a|, |b|)\<close>, the minimum being 0 when the interval
  contains the origin).
\<close>

definition midpoint_rule :: integrator where
  "midpoint_rule fdim f fdata n xmin xmax maxEval reqAbsError reqRelError enorm =
     (let centre = map2 (\<lambda>a b. (a + b) / 2) (take n xmin) (take n xmax);
          volume = prod_list (map2 (\<lambda>a b. b - a) (take n xmin) (take n xmax))
      in \<lparr>val = (case hd (f n 1 centre fdata fdim) of Fin v \<Rightarrow> v * volume | _ \<Rightarrow> 0),
          err = 0\<rparr>)"

definition gsl_min_test_interval :: "real \<Rightarrow> real \<Rightarrow> real \<Rightarrow> real \<Rightarrow> gsl_status" where
  "gsl_min_test_interval x_lower x_upper epsabs epsrel =
     (let abs_lower = \<bar>x_lower\<bar>;
          abs_upper = \<bar>x_upper\<bar>;
          min_abs = (if (0 < x_lower \<and> 0 < x_upper) \<or> (x_lower < 0 \<and> x_upper < 0)
                     then min abs_lower abs_upper else 0);
          tolerance = epsabs + epsrel * min_abs
      in if \<bar>x_upper - x_lower\<bar> < tolerance then GSL_SUCCESS else GSL_CONTINUE)"

definition stalled_min :: "(real \<times> real) gsl_min" where
  "stalled_min =
     \<lparr>fminimizer_set = (\<lambda>f x_minimum x_lower x_upper. (x_lower, x_upper)),
      fminimizer_iterate = (\<lambda>s. s),
      fminimizer_x_lower = fst,
      fminimizer_x_upper = snd,
      fminimizer_f_minimum = (\<lambda>s. 0),
      min_test_interval = gsl_min_test_interval\<rparr>"

text \<open>A minimizer that moves both ends of its bracket to the middle in one step.\<close>

definition collapsing_min :: "(real \<times> real \<times> real) gsl_min" where
  "collapsing_min =
     \<lparr>fminimizer_set = (\<lambda>f x_minimum x_lower x_upper. (x_lower, x_upper, f x_minimum)),
      fminimizer_iterate = (\<lambda>(x_lower, x_upper, f_minimum).
                              ((x_lower + x_upper) / 2, (x_lower + x_upper) / 2, f_minimum)),
      fminimizer_x_lower = (\<lambda>(x_lower, x_upper, f_minimum). x_lower),
      fminimizer_x_upper = (\<lambda>(x_lower, x_upper, f_minimum). x_upper),
      fminimizer_f_minimum = (\<lambda>(x_lower, x_upper, f_minimum). f_minimum),
      min_test_interval = gsl_min_test_interval\<rparr>"

section \<open>Bracket search\<close>

lemma bracket_lower_inv:
  assumes "bracket_lower f b = Some b'" and "evaluated f b"
  shows "di_m b' \<le> di_l b' \<and> evaluated f b'"
  using assms
proof (induction f b b' rule: bracket_lower.raw_induct [rotated, consumes 1, case_names step])
  case (step loop f b b')
  show ?case
  proof (cases "di_l b < di_m b")
    case True
    let ?b = "\<lparr>th_l = th_l b * 2, th_m = th_l b, th_r = th_m b,
              di_l = f (th_l b * 2), di_m = di_l b, di_r = di_m b\<rparr>"
    from True step(2) have "loop f ?b = Some b'" by simp
    moreover from step(3) have "evaluated f ?b" by (simp add: evaluated_def)
    ultimately show ?thesis by (rule step(1))
  next
    case False
    with step(2) have "b' = b" by simp
    with False step(3) show ?thesis by simp
  qed
qed

lemma bracket_upper_inv:
  assumes "bracket_upper f b = Some b'" and "evaluated f b \<and> di_m b \<le> di_l b"
  shows "di_m b' \<le> di_l b' \<and> di_m b' \<le> di_r b' \<and> evaluated f b'"
  using assms
proof (induction f b b' rule: bracket_upper.raw_induct [rotated, consumes 1, case_names step])
  case (step loop f b b')
  show ?case
  proof (cases "di_r b < di_m b")
    case True
    let ?b = "\<lparr>th_l = th_m b, th_m = th_r b, th_r = th_r b * 2,
              di_l = di_m b, di_m = di_r b, di_r = f (th_r b * 2)\<rparr>"
    from True step(2) have "loop f ?b = Some b'" by simp
    moreover from True step(3) have "evaluated f ?b \<and> di_m ?b \<le> di_l ?b"
      by (simp add: evaluated_def)
    ultimately show ?thesis by (rule step(1))
  next
    case False
    with step(2) have "b' = b" by simp
    with False step(3) show ?thesis by simp
  qed
qed

lemma bracket_lower_ordered:
  assumes "bracket_lower f b = Some b'"
    and "ordered b \<and> th_l b < 0 \<and> (0 < th_r b \<or> di_m b < di_r b)"
  shows "ordered b' \<and> (0 < th_r b' \<or> di_m b' < di_r b')"
  using assms
proof (induction f b b' rule: bracket_lower.raw_induct [rotated, consumes 1, case_names step])
  case (step loop f b b')
  show ?case
  proof (cases "di_l b < di_m b")
    case True
    let ?b = "\<lparr>th_l = th_l b * 2, th_m = th_l b, th_r = th_m b,
              di_l = f (th_l b * 2), di_m = di_l b, di_r = di_m b\<rparr>"
    from True step(2) have "loop f ?b = Some b'" by simp
    moreover from True step(3)
    have "ordered ?b \<and> th_l ?b < 0 \<and> (0 < th_r ?b \<or> di_m ?b < di_r ?b)"
      by (simp add: ordered_def)
    ultimately show ?thesis by (rule step(1))
  next
    case False
    with step(2) have "b' = b" by simp
    with step(3) show ?thesis by simp
  qed
qed

lemma bracket_upper_ordered:
  assumes "bracket_upper f b = Some b'"
    and "ordered b \<and> (0 < th_r b \<or> di_m b \<le> di_r b)"
  shows "ordered b'"
  using assms
proof (induction f b b' rule: bracket_upper.raw_induct [rotated, consumes 1, case_names step])
  case (step loop f b b')
  show ?case
  proof (cases "di_r b < di_m b")
    case True
    let ?b = "\<lparr>th_l = th_m b, th_m = th_r b, th_r = th_r b * 2,
              di_l = di_m b, di_m = di_r b, di_r = f (th_r b * 2)\<rparr>"
    from True step(2) have "loop f ?b = Some b'" by simp
    moreover from True step(3)
    have "ordered ?b \<and> (0 < th_r ?b \<or> di_m ?b \<le> di_r ?b)"
      by (auto simp: ordered_def)
    ultimately show ?thesis by (rule step(1))
  next
    case False
    with step(2) have "b' = b" by simp
    with step(3) show ?thesis by simp
  qed
qed

text \<open>
  Claim C3. The search starts from the points \<open>-0.5, 0.5, 1.5\<close> and their loss values
  and runs the first loop, then the second. On a bracket whose stored values are the
  losses at its points, the first loop, while \<open>f th_l < f th_m\<close>, moves the window to the
  left (the old left and middle points become the middle and right ones) and doubles
  \<open>th_l\<close>, evaluating \<open>f\<close> there; the second, while \<open>f th_r < f th_m\<close>, moves the window
  to the right and doubles \<open>th_r\<close>. Whenever both loops end, the loss at the middle point
  of the resulting bracket is at most the loss at either outer point, the three stored
  values are the losses at the three points, and the three points are in increasing
  order.
\<close>

theorem bracket_search_brackets:
  "bracket_search f =
     bracket_lower f \<lparr>th_l = - 0.5, th_m = 0.5, th_r = 1.5,
                      di_l = f (- 0.5), di_m = f 0.5, di_r = f 1.5\<rparr>
     \<bind> bracket_upper f
   \<and> (evaluated f b \<longrightarrow>
        bracket_lower f b =
          (if f (th_l b) < f (th_m b)
           then bracket_lower f \<lparr>th_l = th_l b * 2, th_m = th_l b, th_r = th_m b,
                                 di_l = f (th_l b * 2), di_m = f (th_l b), di_r = f (th_m b)\<rparr>
           else Some b))
   \<and> (evaluated f b \<longrightarrow>
        bracket_upper f b =
          (if f (th_r b) < f (th_m b)
           then bracket_upper f \<lparr>th_l = th_m b, th_m = th_r b, th_r = th_r b * 2,
                                 di_l = f (th_m b), di_m = f (th_r b), di_r = f (th_r b * 2)\<rparr>
           else Some b))
   \<and> (bracket_search f = Some b' \<longrightarrow>
        f (th_m b') \<le> f (th_l b') \<and> f (th_m b') \<le> f (th_r b')
        \<and> di_l b' = f (th_l b') \<and> di_m b' = f (th_m b') \<and> di_r b' = f (th_r b')
        \<and> th_l b' < th_m b' \<and> th_m b' < th_r b')"
proof -
  let ?seed = "\<lparr>th_l = - 0.5, th_m = 0.5, th_r = 1.5,
                di_l = f (- 0.5), di_m = f 0.5, di_r = f 1.5\<rparr>"
  have A: "bracket_search f = bracket_lower f ?seed \<bind> bracket_upper f"
    by (simp add: bracket_search_def)
  have B: "bracket_lower f b =
          (if f (th_l b) < f (th_m b)
           then bracket_lower f \<lparr>th_l = th_l b * 2, th_m = th_l b, th_r = th_m b,
                                 di_l = f (th_l b * 2), di_m = f (th_l b), di_r = f (th_m b)\<rparr>
           else Some b)" if "evaluated f b"
    using that by (subst bracket_lower.simps) (simp add: evaluated_def)
  have C: "bracket_upper f b =
          (if f (th_r b) < f (th_m b)
           then bracket_upper f \<lparr>th_l = th_m b, th_m = th_r b, th_r = th_r b * 2,
                                 di_l = f (th_m b), di_m = f (th_r b), di_r = f (th_r b * 2)\<rparr>
           else Some b)" if "evaluated f b"
    using that by (subst bracket_upper.simps) (simp add: evaluated_def)
  have D: "f (th_m b') \<le> f (th_l b') \<and> f (th_m b') \<le> f (th_r b')
        \<and> di_l b' = f (th_l b') \<and> di_m b' = f (th_m b') \<and> di_r b' = f (th_r b')
        \<and> th_l b' < th_m b' \<and> th_m b' < th_r b'" if run: "bracket_search f = Some b'"
  proof -
    from run obtain b1 where
      lower: "bracket_lower f ?seed = Some b1" and upper: "bracket_upper f b1 = Some b'"
      by (auto simp: bracket_search_def split: bind_splits)
    have "evaluated f ?seed"
      by (simp add: evaluated_def)
    with lower have "evaluated f b1 \<and> di_m b1 \<le> di_l b1"
      using bracket_lower_inv by blast
    with upper have 1: "di_m b' \<le> di_l b' \<and> di_m b' \<le> di_r b' \<and> evaluated f b'"
      by (rule bracket_upper_inv)
    have "ordered ?seed \<and> th_l ?seed < 0 \<and> (0 < th_r ?seed \<or> di_m ?seed < di_r ?seed)"
      by (simp add: ordered_def)
    with lower have "ordered b1 \<and> (0 < th_r b1 \<or> di_m b1 < di_r b1)"
      by (rule bracket_lower_ordered)
    then have "ordered b1 \<and> (0 < th_r b1 \<or> di_m b1 \<le> di_r b1)"
      by auto
    with upper have "ordered b'"
      by (rule bracket_upper_ordered)
    with 1 show ?thesis
      by (simp add: evaluated_def ordered_def)
  qed
  from A B C D show ?thesis by blast
qed

theorem bracket_search_brackets_witness:
  "bracket_search parabola_left
     = Some \<lparr>th_l = - 4, th_m = - 2, th_r = - 1, di_l = 1, di_m = 1, di_r = 4\<rparr>
   \<and> parabola_left (- 2) \<le> parabola_left (- 4) \<and> parabola_left (- 2) \<le> parabola_left (- 1)
   \<and> bracket_lower parabola_left
        \<lparr>th_l = - 0.5, th_m = 0.5, th_r = 1.5, di_l = parabola_left (- 0.5),
         di_m = parabola_left 0.5, di_r = parabola_left 1.5\<rparr>
      = bracket_lower parabola_left
        \<lparr>th_l = - 0.5 * 2, th_m = - 0.5, th_r = 0.5, di_l = parabola_left (- 0.5 * 2),
         di_m = parabola_left (- 0.5), di_r = parabola_left 0.5\<rparr>
   \<and> bracket_search parabola
     = Some \<lparr>th_l = 1.5, th_m = 3, th_r = 6, di_l = 2.25, di_m = 0, di_r = 9\<rparr>
   \<and> parabola 3 \<le> parabola 1.5 \<and> parabola 3 \<le> parabola 6"
proof -
  let ?seedl = "\<lparr>th_l = - 0.5, th_m = 0.5, th_r = 1.5, di_l = parabola_left (- 0.5),
         di_m = parabola_left 0.5, di_r = parabola_left 1.5\<rparr>"
  let ?seedr = "\<lparr>th_l = - 0.5, th_m = 0.5, th_r = 1.5, di_l = parabola (- 0.5),
         di_m = parabola 0.5, di_r = parabola 1.5\<rparr>"
  let ?bl = "\<lparr>th_l = - 4, th_m = - 2, th_r = - 1, di_l = 1, di_m = 1, di_r = 4\<rparr>"
  let ?br = "\<lparr>th_l = 1.5, th_m = 3, th_r = 6, di_l = 2.25, di_m = 0, di_r = 9\<rparr>"
  have left: "bracket_search parabola_left = Some ?bl"
    by (simp add: bracket_search_def bracket_lower.simps bracket_upper.simps parabola_left_def)
  have right: "bracket_search parabola = Some ?br"
    by (simp add: bracket_search_def bracket_lower.simps bracket_upper.simps parabola_def)
  have ev: "evaluated parabola_left ?seedl" "parabola_left (- 0.5) < parabola_left 0.5"
    by (simp_all add: evaluated_def parabola_left_def)
  note L = bracket_search_brackets [of parabola_left ?seedl ?bl]
  note R = bracket_search_brackets [of parabola ?seedr ?br]
  from L left have 1: "parabola_left (- 2) \<le> parabola_left (- 4)
      \<and> parabola_left (- 2) \<le> parabola_left (- 1)"
    by simp
  from L ev have 2: "bracket_lower parabola_left ?seedl
      = bracket_lower parabola_left
        \<lparr>th_l = - 0.5 * 2, th_m = - 0.5, th_r = 0.5, di_l = parabola_left (- 0.5 * 2),
         di_m = parabola_left (- 0.5), di_r = parabola_left 0.5\<rparr>"
    by simp
  from R right have 3: "parabola 3 \<le> parabola 1.5 \<and> parabola 3 \<le> parabola 6"
    by simp
  from 1 2 3 left right show ?thesis
    by blast
qed

section \<open>The minimizer loop\<close>

lemma stalled_never_returns:
  assumes "minimize_loop G iter max_iter s = Some s'"
  shows "\<not> (G = stalled_min \<and> iter < max_iter \<and> s = (- 0.5, 1.5))"
  using assms
proof (induction G iter max_iter s s'
    rule: minimize_loop.raw_induct [rotated, consumes 1, case_names step])
  case (step loop G iter max_iter s s')
  show ?case
  proof
    assume a: "G = stalled_min \<and> iter < max_iter \<and> s = (- 0.5, 1.5)"
    then have "loop G iter max_iter s = Some s'"
      using step(2) by (simp add: stalled_min_def gsl_min_test_interval_def Let_def)
    from step(1) [OF this] a show False by simp
  qed
qed

text \<open>
  While the interval test answers \<^verbatim>\<open>GSL_CONTINUE\<close> the loop goes on, whatever the
  value of \<^verbatim>\<open>max_iter\<close>: the result is the same for every bound above \<^verbatim>\<open>iter\<close>.
\<close>

lemma max_iter_irrelevant_Some:
  assumes "minimize_loop G iter max_iter s = Some s'"
  shows "iter < max_iter \<longrightarrow> iter < bound \<longrightarrow> minimize_loop G iter bound s = Some s'"
  using assms
proof (induction G iter max_iter s s'
    rule: minimize_loop.raw_induct [rotated, consumes 1, case_names step])
  case (step loop G iter max_iter s s')
  show ?case
  proof (intro impI)
    assume lt: "iter < max_iter" "iter < bound"
    let ?s = "fminimizer_iterate G s"
    show "minimize_loop G iter bound s = Some s'"
    proof (cases "min_test_interval G (fminimizer_x_lower G ?s) (fminimizer_x_upper G ?s)
                    (1 / 10 ^ 6) (1 / 10 ^ 3) = GSL_CONTINUE")
      case True
      with step(2) lt have "loop G iter max_iter ?s = Some s'"
        by (simp add: Let_def)
      from step(1) [OF this] lt have "minimize_loop G iter bound ?s = Some s'"
        by simp
      with True lt show ?thesis
        by (subst minimize_loop.simps) (simp add: Let_def)
    next
      case False
      with step(2) have "s' = ?s" by (simp add: Let_def)
      with False show ?thesis
        by (subst minimize_loop.simps) (simp add: Let_def)
    qed
  qed
qed

lemma max_iter_irrelevant:
  assumes "iter < max_iter" and "iter < bound"
  shows "minimize_loop G iter max_iter s = minimize_loop G iter bound s"
proof (cases "minimize_loop G iter max_iter s")
  case (Some s')
  with max_iter_irrelevant_Some [OF Some, of bound] assms show ?thesis by simp
next
  case None
  show ?thesis
  proof (cases "minimize_loop G iter bound s")
    case (Some s')
    with max_iter_irrelevant_Some [OF Some, of max_iter] assms None show ?thesis by simp
  next
    case none: None
    with None show ?thesis by simp
  qed
qed

text \<open>
  Claim C1. The refinement loop is to stop after 1000 steps at the latest. It does not:
  started with \<^verbatim>\<open>iter = 0\<close> and \<^verbatim>\<open>max_iter = 1000\<close> on a minimizer whose bracket
  stays at \<open>[-0.5, 1.5]\<close>, wider than the tolerance, the loop never returns, since
  \<^verbatim>\<open>iter\<close> is never incremented.
\<close>

theorem iteration_cap_not_enforced:
  "minimize_loop stalled_min 0 1000 (fminimizer_set stalled_min parabola 0.5 (- 0.5) 1.5) = None"
proof -
  have s: "fminimizer_set stalled_min parabola 0.5 (- 0.5) 1.5 = (- 0.5, 1.5)"
    by (simp add: stalled_min_def)
  have "minimize_loop stalled_min 0 1000 (- 0.5, 1.5) \<noteq> Some s'" for s'
    using stalled_never_returns [of stalled_min 0 1000 "(- 0.5, 1.5)" s'] by auto
  then show ?thesis
    unfolding s by (cases "minimize_loop stalled_min 0 1000 (- 0.5, 1.5)") auto
qed

section \<open>The coefficient arrays\<close>

lemma Fin_minus [simp]: "Fin a - Fin b = Fin (a - b)"
  by (simp add: minus_dbl_def)

lemma rho_sq_pos: "\<bar>r\<bar> < 1 \<Longrightarrow> 0 < 1 - r * r" for r :: real
proof -
  assume "\<bar>r\<bar> < 1"
  then have "\<bar>r\<bar> * \<bar>r\<bar> < 1 * 1"
    by (intro mult_strict_mono) auto
  then show ?thesis
    by simp
qed

lemma diTheta_params2D_list:
  assumes "\<bar>rho1\<bar> < 1" "\<bar>rho2\<bar> < 1"
  shows "diTheta_params2D th [p, rho1, rho2] =
     [Fin p, Fin (1 - p),
      Fin (p * sqrt (1 / (1 - rho1 * rho1)) / (2 * pi)),
      Fin ((1 - p) * sqrt (1 / (1 - rho2 * rho2)) / (2 * pi)),
      Fin (1 / (1 - rho1 * rho1)), Fin (1 / (1 - rho2 * rho2)),
      Fin (rho1 * (1 / (1 - rho1 * rho1))), Fin (rho2 * (1 / (1 - rho2 * rho2))),
      Fin th, Fin th]"
  using rho_sq_pos [OF assms(1)] rho_sq_pos [OF assms(2)]
  by (simp add: diTheta_params2D_def Let_def numeral_eq_Suc less_imp_le)

lemma diTheta_params1D_list:
  "diTheta_params1D [c0, Fin q, c2, c3, c4, c5, c6, c7, c8, c9] (p # rest) =
     [Fin q, Fin p, Fin (q / sqrt (2 * pi)), Fin (p / sqrt (2 * pi)),
      Fin 1, Fin 1, Fin 0, Fin 0, c8, c9]"
  by (simp add: diTheta_params1D_def Let_def numeral_eq_Suc)

lemma infoGauss_params_2D:
  assumes "\<bar>rho1\<bar> < 1" "\<bar>rho2\<bar> < 1" "max m n \<noteq> 1"
  shows "infoGauss_params [m, n] [p, rho1, rho2] =
     ([Fin p, Fin (1 - p),
      Fin (p * sqrt (1 / (1 - rho1 * rho1)) / (2 * pi)),
      Fin ((1 - p) * sqrt (1 / (1 - rho2 * rho2)) / (2 * pi)),
      Fin (1 / (1 - rho1 * rho1)), Fin (1 / (1 - rho2 * rho2)),
      Fin (rho1 * (1 / (1 - rho1 * rho1))), Fin (rho2 * (1 / (1 - rho2 * rho2)))], [2, n])"
  using rho_sq_pos [OF assms(1)] rho_sq_pos [OF assms(2)] assms(3)
  by (auto simp add: infoGauss_params_def infoGauss_params2D_def Let_def numeral_eq_Suc
      less_imp_le max_def split: if_splits)

lemma infoGauss_params_1D:
  assumes "max m n = 1"
  shows "infoGauss_params [m, n] (p # rest) =
     ([Fin p, Fin (1 - p), Fin (p / sqrt (2 * pi)), Fin ((1 - p) / sqrt (2 * pi)),
       Fin 1, Fin 1, Fin 0, Fin 0], [1, n])"
  using assms
  by (auto simp add: infoGauss_params_def infoGauss_params1D_def Let_def numeral_eq_Suc
      max_def split: if_splits)

lemma infoGauss_params_branch:
  "fst (infoGauss_params [m, n] par) =
     (let params = (replicate 8 (Fin 0))[0 := Fin (par ! 0), 1 := Fin 1 - Fin (par ! 0)]
      in if max m n = 1 then infoGauss_params1D params else infoGauss_params2D params par)"
  by (simp add: infoGauss_params_def Let_def max_def)

lemma a_coefficient_infinite:
  assumes "\<bar>r\<bar> = 1"
  shows "Fin 1 / (Fin 1 - Fin r * Fin r) = PInf"
proof -
  from assms have "r * r = 1"
    by (metis abs_mult_self_eq mult_1)
  then show ?thesis by simp
qed

text \<open>
  Claim C5, as amended. For valid parameters the coefficient cells
  \<open>[p1, p2, w1, w2, a1, a2, b1, b2]\<close> are: in two dimensions, in both files,
  \<open>a k = 1 / (1 - rho k\<^sup>2)\<close>, \<open>w k = p k * sqrt (a k) / (2 * pi)\<close>, \<open>b k = rho k * a k\<close>
  with \<open>p1 = p\<close> and \<open>p2 = 1 - p\<close>; in one dimension \<open>a k = 1\<close>, \<open>b k = 0\<close>,
  \<open>w k = p k / sqrt (2 * pi)\<close>, with \<open>p1 = p\<close>, \<open>p2 = 1 - p\<close> in infoGauss.c and with the
  two weights exchanged, \<open>p1 = 1 - p\<close>, \<open>p2 = p\<close>, in the second coefficient array of
  \<^verbatim>\<open>diTheta\<close>.
\<close>

theorem coefficient_sets:
  assumes "valid_params [p, rho1, rho2]"
  shows "diTheta_params2D th [p, rho1, rho2] =
           [Fin p, Fin (1 - p),
            Fin (p * sqrt (1 / (1 - rho1 * rho1)) / (2 * pi)),
            Fin ((1 - p) * sqrt (1 / (1 - rho2 * rho2)) / (2 * pi)),
            Fin (1 / (1 - rho1 * rho1)), Fin (1 / (1 - rho2 * rho2)),
            Fin (rho1 * (1 / (1 - rho1 * rho1))), Fin (rho2 * (1 / (1 - rho2 * rho2))),
            Fin th, Fin th]
       \<and> diTheta_params1D (diTheta_params2D th [p, rho1, rho2]) [p, rho1, rho2] =
           [Fin (1 - p), Fin p, Fin ((1 - p) / sqrt (2 * pi)), Fin (p / sqrt (2 * pi)),
            Fin 1, Fin 1, Fin 0, Fin 0, Fin th, Fin th]
       \<and> (max m n \<noteq> 1 \<longrightarrow>
            fst (infoGauss_params [m, n] [p, rho1, rho2]) =
              [Fin p, Fin (1 - p),
               Fin (p * sqrt (1 / (1 - rho1 * rho1)) / (2 * pi)),
               Fin ((1 - p) * sqrt (1 / (1 - rho2 * rho2)) / (2 * pi)),
               Fin (1 / (1 - rho1 * rho1)), Fin (1 / (1 - rho2 * rho2)),
               Fin (rho1 * (1 / (1 - rho1 * rho1))), Fin (rho2 * (1 / (1 - rho2 * rho2)))])
       \<and> (max m n = 1 \<longrightarrow>
            fst (infoGauss_params [m, n] [p]) =
              [Fin p, Fin (1 - p), Fin (p / sqrt (2 * pi)), Fin ((1 - p) / sqrt (2 * pi)),
               Fin 1, Fin 1, Fin 0, Fin 0])"
proof -
  from assms have r: "\<bar>rho1\<bar> < 1" "\<bar>rho2\<bar> < 1"
    by (simp_all add: valid_params_def)
  show ?thesis
    by (simp add: diTheta_params2D_list [OF r] diTheta_params1D_list
        infoGauss_params_2D [OF r] infoGauss_params_1D)
qed

theorem coefficient_sets_witness:
  "valid_params [1/4, 0, 0]
   \<and> diTheta_params1D (diTheta_params2D 1 [1/4, 0, 0]) [1/4, 0, 0] =
           [Fin (3/4), Fin (1/4), Fin ((3/4) / sqrt (2 * pi)), Fin ((1/4) / sqrt (2 * pi)),
            Fin 1, Fin 1, Fin 0, Fin 0, Fin 1, Fin 1]
   \<and> fst (infoGauss_params [1, 3] [1/4, 0, 0]) =
           [Fin (1/4), Fin (3/4), Fin ((1/4) / (2 * pi)), Fin ((3/4) / (2 * pi)),
            Fin 1, Fin 1, Fin 0, Fin 0]"
proof -
  have v: "valid_params [1/4, 0, 0]"
    by (simp add: valid_params_def)
  from coefficient_sets [OF v, of 1 1 3] show ?thesis
    using v by (simp add: diTheta_params1D_list)
qed

text \<open>
  Claim C5 as stated fails: with \<open>p = 1/4\<close> the first weight of the one-dimensional
  coefficient array of \<^verbatim>\<open>diTheta\<close> is \<open>(3/4) / sqrt (2 * pi)\<close>, not
  \<open>p / sqrt (2 * pi)\<close>.
\<close>

theorem weights_counterexample:
  "diTheta_params1D (diTheta_params2D 1 [1/4, 0, 0]) [1/4, 0, 0] ! 2
     \<noteq> Fin ((1/4) / sqrt (2 * pi))"
proof -
  have r: "\<bar>0::real\<bar> < 1" by simp
  show ?thesis
    by (simp add: diTheta_params2D_list [OF r r] diTheta_params1D_list)
qed

text \<open>
  Claim C4. For valid parameters, \<^verbatim>\<open>diTheta\<close> at \<open>th\<close> is the sum of the value fields
  of two integrator results, the error fields being dropped: the integral over
  \<open>[-5, 5] \<times> [-5, 5]\<close> of the divergence integrand with the two-dimensional correlated
  coefficients and \<open>th\<close> in both reference cells, and the integral over \<open>[-5, 5]\<close> of the
  same integrand with the mixing weights exchanged, \<open>a = 1\<close>, \<open>b = 0\<close> and the same
  \<open>th\<close>. (Both calls pass the two-cell arrays \<^verbatim>\<open>xmin\<close> and \<^verbatim>\<open>xmax\<close>; the
  dimension argument is 2, then 1.)
\<close>

theorem diTheta_two_integrals:
  assumes "valid_params [p, rho1, rho2]"
  shows "diTheta hcubature_v th [p, rho1, rho2] =
           val (hcubature_v 1 NDIntegrand_di
                  [Fin p, Fin (1 - p),
                   Fin (p * sqrt (1 / (1 - rho1 * rho1)) / (2 * pi)),
                   Fin ((1 - p) * sqrt (1 / (1 - rho2 * rho2)) / (2 * pi)),
                   Fin (1 / (1 - rho1 * rho1)), Fin (1 / (1 - rho2 * rho2)),
                   Fin (rho1 * (1 / (1 - rho1 * rho1))), Fin (rho2 * (1 / (1 - rho2 * rho2))),
                   Fin th, Fin th]
                  2 [- 5, - 5] [5, 5] 1000 (1 / 10 ^ 6) (1 / 10 ^ 3) ERROR_INDIVIDUAL)
         + val (hcubature_v 1 NDIntegrand_di
                  [Fin (1 - p), Fin p, Fin ((1 - p) / sqrt (2 * pi)), Fin (p / sqrt (2 * pi)),
                   Fin 1, Fin 1, Fin 0, Fin 0, Fin th, Fin th]
                  1 [- 5, - 5] [5, 5] 1000 (1 / 10 ^ 6) (1 / 10 ^ 3) ERROR_INDIVIDUAL)"
proof -
  from assms have r: "\<bar>rho1\<bar> < 1" "\<bar>rho2\<bar> < 1"
    by (simp_all add: valid_params_def)
  show ?thesis
    unfolding diTheta_def Let_def diTheta_params2D_list [OF r] diTheta_params1D_list
    by simp
qed

theorem diTheta_two_integrals_witness:
  "valid_params [1/2, 0, 0] \<and>
   diTheta midpoint_rule 1 [1/2, 0, 0] =
           val (midpoint_rule 1 NDIntegrand_di
                  [Fin (1/2), Fin (1/2), Fin ((1/2) / (2 * pi)), Fin ((1/2) / (2 * pi)),
                   Fin 1, Fin 1, Fin 0, Fin 0, Fin 1, Fin 1]
                  2 [- 5, - 5] [5, 5] 1000 (1 / 10 ^ 6) (1 / 10 ^ 3) ERROR_INDIVIDUAL)
         + val (midpoint_rule 1 NDIntegrand_di
                  [Fin (1/2), Fin (1/2), Fin ((1/2) / sqrt (2 * pi)), Fin ((1/2) / sqrt (2 * pi)),
                   Fin 1, Fin 1, Fin 0, Fin 0, Fin 1, Fin 1]
                  1 [- 5, - 5] [5, 5] 1000 (1 / 10 ^ 6) (1 / 10 ^ 3) ERROR_INDIVIDUAL)"
proof -
  have v: "valid_params [1/2, 0, 0]"
    by (simp add: valid_params_def)
  from diTheta_two_integrals [OF v, of midpoint_rule 1] show ?thesis
    using v by simp
qed

text \<open>
  Claim C8. For valid parameters the result of \<^verbatim>\<open>mexFunction\<close> in infoGauss.c is the
  integrator's estimate for the entropy integrand over \<open>[-5, 5]\<^sup>d\<close> plus
  \<open>- p * ln p - (1 - p) * ln (1 - p)\<close>, with the natural logarithm: \<open>d = 2\<close> when the
  input array has more than one cell, \<open>d = 1\<close> when it is the single cell \<open>p\<close>.
\<close>

theorem mutual_information_value:
  assumes "0 < p" and "p < 1" and "\<bar>rho1\<bar> < 1" and "\<bar>rho2\<bar> < 1" and "max m n \<noteq> 1"
  shows "mexFunction_infoGauss hcubature_v [m, n] [p, rho1, rho2] =
           Inr (Fin (val (hcubature_v 1 NDIntegrand_info
                            [Fin p, Fin (1 - p),
                             Fin (p * sqrt (1 / (1 - rho1 * rho1)) / (2 * pi)),
                             Fin ((1 - p) * sqrt (1 / (1 - rho2 * rho2)) / (2 * pi)),
                             Fin (1 / (1 - rho1 * rho1)), Fin (1 / (1 - rho2 * rho2)),
                             Fin (rho1 * (1 / (1 - rho1 * rho1))),
                             Fin (rho2 * (1 / (1 - rho2 * rho2)))]
                            2 [- 5, - 5] [5, 5] 1000 (1 / 10 ^ 6) (1 / 10 ^ 3) ERROR_INDIVIDUAL)
                     + (- p * ln p - (1 - p) * ln (1 - p))))
       \<and> mexFunction_infoGauss hcubature_v [1, 1] [p] =
           Inr (Fin (val (hcubature_v 1 NDIntegrand_info
                            [Fin p, Fin (1 - p), Fin (p / sqrt (2 * pi)),
                             Fin ((1 - p) / sqrt (2 * pi)), Fin 1, Fin 1, Fin 0, Fin 0]
                            1 [- 5, - 5] [5, 5] 1000 (1 / 10 ^ 6) (1 / 10 ^ 3) ERROR_INDIVIDUAL)
                     + (- p * ln p - (1 - p) * ln (1 - p))))"
proof -
  have one: "max (1::int) 1 = 1" by simp
  show ?thesis
    unfolding mexFunction_infoGauss_def Let_def
      infoGauss_params_2D [OF assms(3,4,5)] infoGauss_params_1D [OF one]
    using assms(1,2) by simp
qed

theorem mutual_information_value_witness:
  "mexFunction_infoGauss midpoint_rule [1, 3] [1/2, 0, 0] =
           Inr (Fin (val (midpoint_rule 1 NDIntegrand_info
                            [Fin (1/2), Fin (1/2), Fin ((1/2) / (2 * pi)), Fin ((1/2) / (2 * pi)),
                             Fin 1, Fin 1, Fin 0, Fin 0]
                            2 [- 5, - 5] [5, 5] 1000 (1 / 10 ^ 6) (1 / 10 ^ 3) ERROR_INDIVIDUAL)
                     + (- (1/2) * ln (1/2) - (1/2) * ln (1/2))))
       \<and> mexFunction_infoGauss midpoint_rule [1, 1] [1/2] =
           Inr (Fin (val (midpoint_rule 1 NDIntegrand_info
                            [Fin (1/2), Fin (1/2), Fin ((1/2) / sqrt (2 * pi)),
                             Fin ((1/2) / sqrt (2 * pi)), Fin 1, Fin 1, Fin 0, Fin 0]
                            1 [- 5, - 5] [5, 5] 1000 (1 / 10 ^ 6) (1 / 10 ^ 3) ERROR_INDIVIDUAL)
                     + (- (1/2) * ln (1/2) - (1/2) * ln (1/2))))"
  using mutual_information_value [of "1/2" 0 0 1 3 midpoint_rule]
  by simp

text \<open>
  With \<open>p = 2\<close>, \<open>rho1 = 1\<close>, \<open>rho2 = -1\<close> both entry points run to the end. Under the
  midpoint rule every loss value is 0: the two-dimensional integrand meets a value that
  is not a number and stores 0, and the one-dimensional terms cancel.
\<close>

lemma invalid_params2D: "diTheta_params2D th [2, 1, - 1] =
   [Fin 2, Fin (- 1), PInf, NInf, PInf, PInf, PInf, NInf, Fin th, Fin th]"
  by (simp add: diTheta_params2D_def Let_def numeral_eq_Suc)

lemma invalid_params1D: "diTheta_params1D (diTheta_params2D th [2, 1, - 1]) [2, 1, - 1] =
   [Fin (- 1), Fin 2, Fin (- 1 / sqrt (2 * pi)), Fin (2 / sqrt (2 * pi)),
    Fin 1, Fin 1, Fin 0, Fin 0, Fin th, Fin th]"
  unfolding invalid_params2D by (simp add: diTheta_params1D_list)

lemma centre_coords2: "coord_loop 2 [0, 0] (mu ! 0) (1, 0) = (1, 2)"
  by (simp add: mu_def numeral_2_eq_2 Let_def)

lemma centre_coords1: "coord_loop 1 [0] (mu ! 0) (1, 0) = (1, 1)" "coord_loop 1 [0] (mu ! 1) (1, 0) = (- 1, 1)"
  by (simp_all add: mu_def Let_def)

lemma point_di_invalid2D: "point_di (diTheta_params2D th [2, 1, - 1]) 2 [0, 0] = Fin 0"
proof -
  have "\<not> isfinite (fst (class_step_di (diTheta_params2D th [2, 1, - 1]) 2 [0, 0] 0
                          (Fin 0, Fin 0, Fin 0)))"
    unfolding invalid_params2D class_step_di_def centre_coords2 prod.case Let_def
    by (simp add: psx_val_def pisx_val_def)
  then show ?thesis
    by (auto simp: point_di_def Let_def split: prod.splits)
qed


lemma invalid_densities:
  "psx_val (diTheta_params1D (diTheta_params2D th [2, 1, - 1]) [2, 1, - 1]) 0 s P
     = Fin (- (exp s / sqrt (2 * pi)))"
  "psx_val (diTheta_params1D (diTheta_params2D th [2, 1, - 1]) [2, 1, - 1]) 1 s P
     = Fin (2 * (exp s / sqrt (2 * pi)))"
  "pisx_val (diTheta_params1D (diTheta_params2D th [2, 1, - 1]) [2, 1, - 1]) 0 s
     = Fin (- exp (th * s))"
  "pisx_val (diTheta_params1D (diTheta_params2D th [2, 1, - 1]) [2, 1, - 1]) 1 s
     = Fin (2 * exp (th * s))"
  unfolding invalid_params1D by (simp_all add: psx_val_def pisx_val_def)

lemma negative_class_term:
  assumes "0 < A" "0 < B"
  shows "Fin d + Fin (- A) * dlog (Fin (- A) / Fin (- B)) = Fin (d - A * ln (A / B))"
  using assms by simp

lemma positive_class_term:
  assumes "0 < A" "0 < B"
  shows "Fin d + Fin (2 * A) * dlog (Fin (2 * A) / Fin (2 * B)) = Fin (d + 2 * A * ln (A / B))"
  using assms by simp

lemma point_di_invalid1D: "point_di (diTheta_params1D (diTheta_params2D th [2, 1, - 1]) [2, 1, - 1]) 1 [0] = Fin 0"
proof -
  let ?P = "diTheta_params1D (diTheta_params2D th [2, 1, - 1]) [2, 1, - 1]"
  define s :: real where "s = 1 * (- 0.5)"
  define A where "A = exp s / sqrt (2 * pi)"
  define B where "B = exp (th * s)"
  have pos: "0 < A" "0 < B" by (simp_all add: A_def B_def)
  have s0: "class_step_di ?P 1 [0] 0 (Fin 0, Fin 0, Fin 0)
              = (Fin (0 - A * ln (A / B)), Fin (- A), Fin (- B))"
    unfolding class_step_di_def centre_coords1 prod.case Let_def s_def [symmetric] invalid_densities
      A_def [symmetric] B_def [symmetric] negative_class_term [OF pos]
    by simp
  have s1: "class_step_di ?P 1 [0] 1 (Fin d, Fin (- A), Fin (- B))
              = (Fin (d + 2 * A * ln (A / B)), Fin A, Fin B)" for d
    unfolding class_step_di_def centre_coords1 prod.case Let_def s_def [symmetric] invalid_densities
      A_def [symmetric] B_def [symmetric] positive_class_term [OF pos]
    by simp
  have "class_loop_di ?P 1 [0] [0, 1] (Fin 0, Fin 0, Fin 0)
          = (Fin (0 - A * ln (A / B) + 2 * A * ln (A / B)), Fin A, Fin B)"
    unfolding class_loop_di.simps Let_def s0 s1 fst_conv isfinite.simps by simp
  then show ?thesis
    unfolding point_di_def using pos by simp
qed

lemma diTheta_invalid: "diTheta midpoint_rule th [2, 1, - 1] = 0"
  unfolding diTheta_def Let_def midpoint_rule_def
  by (simp add: NDIntegrand_di_def point_di_invalid1D [unfolded One_nat_def] point_di_invalid2D)

lemma mexFunction_dinidl_invalid: "mexFunction_dinidl midpoint_rule collapsing_min [2, 1, - 1] = Some (Inr 0)"
  unfolding mexFunction_dinidl_def diTheta_invalid bracket_search_def
  by (simp add: bracket_lower.simps bracket_upper.simps minimize_loop.simps collapsing_min_def
      gsl_min_test_interval_def Let_def)

lemma mexFunction_infoGauss_invalid:
  "mexFunction_infoGauss midpoint_rule [1, 3] [2, 1, - 1] = Inr NaN"
  by (simp add: mexFunction_infoGauss_def infoGauss_params_def infoGauss_params2D_def Let_def
      minus_dbl_def)

text \<open>
  Claim C2, as amended. Neither entry point tests its parameters: for every input,
  valid or not, no \<open>DomainError\<close> is returned and the coefficients are computed and
  handed to the integrator. The result of \<^verbatim>\<open>mexFunction\<close> in infoGauss.c is the
  integrator's value on the coefficient array plus the entropy term; every loss value is
  the sum of the integrator's values on the two coefficient arrays of \<^verbatim>\<open>diTheta\<close>,
  and \<^verbatim>\<open>mexFunction\<close> in dinidlGaussTheta.c begins by evaluating the loss at
  \<open>-0.5, 0.5, 1.5\<close>, runs the two bracket loops and the minimizer loop, and returns the
  minimizer's value. When \<open>|rho k| = 1\<close>, the coefficient \<open>a k = 1 / (1 - rho k\<^sup>2)\<close> in
  these arrays is \<open>+infinity\<close>.
\<close>

theorem no_validation:
  "mexFunction_infoGauss hcubature_v parnum par \<noteq> Inl DomainError
   \<and> mexFunction_dinidl hcubature_v G par \<noteq> Some (Inl DomainError)
   \<and> (\<bar>rho1\<bar> = 1 \<longrightarrow> diTheta_params2D th [p, rho1, rho2] ! 4 = PInf)
   \<and> (\<bar>rho2\<bar> = 1 \<longrightarrow> diTheta_params2D th [p, rho1, rho2] ! 5 = PInf)
   \<and> (\<bar>rho1\<bar> = 1 \<and> max m n \<noteq> 1
        \<longrightarrow> fst (infoGauss_params [m, n] [p, rho1, rho2]) ! 4 = PInf)
   \<and> (\<bar>rho2\<bar> = 1 \<and> max m n \<noteq> 1
        \<longrightarrow> fst (infoGauss_params [m, n] [p, rho1, rho2]) ! 5 = PInf)
   \<and> mexFunction_infoGauss hcubature_v parnum par =
       Inr (Fin (val (hcubature_v 1 NDIntegrand_info (fst (infoGauss_params parnum par))
                        (nat (snd (infoGauss_params parnum par) ! 0))
                        [- 5, - 5] [5, 5] 1000 (1 / 10 ^ 6) (1 / 10 ^ 3) ERROR_INDIVIDUAL))
            + (- (fst (infoGauss_params parnum par) ! 0)
                 * dlog (fst (infoGauss_params parnum par) ! 0)
               - fst (infoGauss_params parnum par) ! 1
                 * dlog (fst (infoGauss_params parnum par) ! 1)))
   \<and> diTheta hcubature_v th par =
       val (hcubature_v 1 NDIntegrand_di (diTheta_params2D th par)
              2 [- 5, - 5] [5, 5] 1000 (1 / 10 ^ 6) (1 / 10 ^ 3) ERROR_INDIVIDUAL)
       + val (hcubature_v 1 NDIntegrand_di (diTheta_params1D (diTheta_params2D th par) par)
                1 [- 5, - 5] [5, 5] 1000 (1 / 10 ^ 6) (1 / 10 ^ 3) ERROR_INDIVIDUAL)
   \<and> mexFunction_dinidl hcubature_v G par =
       bracket_lower (\<lambda>th. diTheta hcubature_v th par)
         \<lparr>th_l = - 0.5, th_m = 0.5, th_r = 1.5,
          di_l = diTheta hcubature_v (- 0.5) par, di_m = diTheta hcubature_v 0.5 par,
          di_r = diTheta hcubature_v 1.5 par\<rparr>
       \<bind> bracket_upper (\<lambda>th. diTheta hcubature_v th par)
       \<bind> (\<lambda>b. minimize_loop G 0 1000
                   (fminimizer_set G (\<lambda>th. diTheta hcubature_v th par) (th_m b) (th_l b) (th_r b))
                 \<bind> (\<lambda>s. Some (Inr (fminimizer_f_minimum G s))))"
proof -
  have "mexFunction_infoGauss hcubature_v parnum par \<noteq> Inl DomainError"
    by (simp add: mexFunction_infoGauss_def Let_def split: prod.splits)
  moreover have "mexFunction_dinidl hcubature_v G par \<noteq> Some (Inl DomainError)"
    by (auto simp: mexFunction_dinidl_def Let_def split: bind_splits)
  moreover have "diTheta_params2D th [p, rho1, rho2] ! 4 = PInf" if "\<bar>rho1\<bar> = 1"
    using a_coefficient_infinite [OF that] by (simp add: diTheta_params2D_def Let_def)
  moreover have "diTheta_params2D th [p, rho1, rho2] ! 5 = PInf" if "\<bar>rho2\<bar> = 1"
    using a_coefficient_infinite [OF that] by (simp add: diTheta_params2D_def Let_def)
  moreover have "fst (infoGauss_params [m, n] [p, rho1, rho2]) ! 4 = PInf"
    if "\<bar>rho1\<bar> = 1" "max m n \<noteq> 1"
    using a_coefficient_infinite [OF that(1)] that(2)
    by (simp add: infoGauss_params_branch infoGauss_params2D_def Let_def)
  moreover have "fst (infoGauss_params [m, n] [p, rho1, rho2]) ! 5 = PInf"
    if "\<bar>rho2\<bar> = 1" "max m n \<noteq> 1"
    using a_coefficient_infinite [OF that(1)] that(2)
    by (simp add: infoGauss_params_branch infoGauss_params2D_def Let_def)
  moreover have "mexFunction_infoGauss hcubature_v parnum par =
       Inr (Fin (val (hcubature_v 1 NDIntegrand_info (fst (infoGauss_params parnum par))
                        (nat (snd (infoGauss_params parnum par) ! 0))
                        [- 5, - 5] [5, 5] 1000 (1 / 10 ^ 6) (1 / 10 ^ 3) ERROR_INDIVIDUAL))
            + (- (fst (infoGauss_params parnum par) ! 0)
                 * dlog (fst (infoGauss_params parnum par) ! 0)
               - fst (infoGauss_params parnum par) ! 1
                 * dlog (fst (infoGauss_params parnum par) ! 1)))"
    by (cases "infoGauss_params parnum par") (simp add: mexFunction_infoGauss_def Let_def)
  moreover have "diTheta hcubature_v th par =
       val (hcubature_v 1 NDIntegrand_di (diTheta_params2D th par)
              2 [- 5, - 5] [5, 5] 1000 (1 / 10 ^ 6) (1 / 10 ^ 3) ERROR_INDIVIDUAL)
       + val (hcubature_v 1 NDIntegrand_di (diTheta_params1D (diTheta_params2D th par) par)
                1 [- 5, - 5] [5, 5] 1000 (1 / 10 ^ 6) (1 / 10 ^ 3) ERROR_INDIVIDUAL)"
    by (simp add: diTheta_def Let_def)
  moreover have "mexFunction_dinidl hcubature_v G par =
       bracket_lower (\<lambda>th. diTheta hcubature_v th par)
         \<lparr>th_l = - 0.5, th_m = 0.5, th_r = 1.5,
          di_l = diTheta hcubature_v (- 0.5) par, di_m = diTheta hcubature_v 0.5 par,
          di_r = diTheta hcubature_v 1.5 par\<rparr>
       \<bind> bracket_upper (\<lambda>th. diTheta hcubature_v th par)
       \<bind> (\<lambda>b. minimize_loop G 0 1000
                   (fminimizer_set G (\<lambda>th. diTheta hcubature_v th par) (th_m b) (th_l b) (th_r b))
                 \<bind> (\<lambda>s. Some (Inr (fminimizer_f_minimum G s))))"
    by (simp add: mexFunction_dinidl_def bracket_search_def Let_def)
  ultimately show ?thesis by blast
qed

theorem no_validation_witness:
  "mexFunction_infoGauss midpoint_rule [1, 3] [2, 1, - 1] \<noteq> Inl DomainError
   \<and> mexFunction_infoGauss midpoint_rule [1, 3] [2, 1, - 1] = Inr NaN
   \<and> mexFunction_dinidl midpoint_rule collapsing_min [2, 1, - 1] \<noteq> Some (Inl DomainError)
   \<and> mexFunction_dinidl midpoint_rule collapsing_min [2, 1, - 1] = Some (Inr 0)
   \<and> diTheta_params2D 1 [2, 1, - 1] ! 4 = PInf
   \<and> diTheta_params2D 1 [2, 1, - 1] ! 5 = PInf
   \<and> fst (infoGauss_params [1, 3] [2, 1, - 1]) ! 4 = PInf
   \<and> fst (infoGauss_params [1, 3] [2, 1, - 1]) ! 5 = PInf"
proof -
  have h: "\<bar>1::real\<bar> = 1" "\<bar>- 1::real\<bar> = 1" "max (1::int) 3 \<noteq> 1"
    by simp_all
  from no_validation [of midpoint_rule "[1, 3]" "[2, 1, - 1]" collapsing_min 1 1 2 "- 1" 1 3] h
    mexFunction_infoGauss_invalid mexFunction_dinidl_invalid
  show ?thesis by blast
qed

text \<open>
  Claim C2 as stated fails: with \<open>rho1 = 1\<close> the entry point of infoGauss.c does not
  return a \<open>DomainError\<close>, and in both files the coefficient \<open>a1\<close> is \<open>+infinity\<close>.
\<close>

theorem domain_error_counterexample:
  "mexFunction_infoGauss midpoint_rule [1, 3] [1/2, 1, 0] \<noteq> Inl DomainError
   \<and> fst (infoGauss_params [1, 3] [1/2, 1, 0]) ! 4 = PInf
   \<and> diTheta_params2D 1 [1/2, 1, 0] ! 4 = PInf"
  by (simp add: mexFunction_infoGauss_def infoGauss_params_def infoGauss_params2D_def
      diTheta_params2D_def Let_def)

section \<open>The integrands, point by point\<close>

lemma coord_loop_take: "coord_loop n (take n x) m acc = coord_loop n x m acc"
proof (induction n arbitrary: x acc)
  case 0
  show ?case by (cases acc) simp
next
  case (Suc n)
  obtain a b where acc: "acc = (a, b)" by (cases acc)
  have hd: "hd (take (Suc n) x) = hd x"
    by (cases x) simp_all
  have tl: "tl (take (Suc n) x) = take n (tl x)"
    by (cases x) simp_all
  show ?case
    by (simp add: acc hd tl Suc.IH Let_def)
qed

lemma class_step_di_take:
  "class_step_di params xdim (take xdim x) indmu st = class_step_di params xdim x indmu st"
  by (simp add: class_step_di_def coord_loop_take)

lemma class_loop_di_take:
  "class_loop_di params xdim (take xdim x) ks st = class_loop_di params xdim x ks st"
  by (induction ks arbitrary: st) (simp_all add: class_step_di_take Let_def)

lemma point_di_take: "point_di params xdim (take xdim x) = point_di params xdim x"
  unfolding point_di_def class_loop_di_take ..

lemma class_step_info_take:
  "class_step_info params xdim (take xdim x) indmu st = class_step_info params xdim x indmu st"
  by (simp add: class_step_info_def coord_loop_take)

lemma class_loop_info_take:
  "class_loop_info params xdim (take xdim x) ks st = class_loop_info params xdim x ks st"
  by (induction ks arbitrary: st) (simp_all add: class_step_info_take Let_def)

lemma point_info_take: "point_info params xdim (take xdim x) = point_info params xdim x"
  unfolding point_info_def class_loop_info_take ..

lemma NDIntegrand_loop_di_nth:
  "i < numx \<Longrightarrow>
     NDIntegrand_loop_di xdim numx x params ! i = point_di params xdim (drop (i * xdim) x)"
proof (induction numx arbitrary: x i)
  case 0
  then show ?case by simp
next
  case (Suc numx)
  show ?case
  proof (cases i)
    case 0
    then show ?thesis by simp
  next
    case (Suc j)
    with Suc.prems have "j < numx" by simp
    then show ?thesis
      by (simp add: Suc Suc.IH add.commute)
  qed
qed

lemma NDIntegrand_loop_info_nth:
  "i < numx \<Longrightarrow>
     NDIntegrand_loop_info xdim numx x params ! i = point_info params xdim (drop (i * xdim) x)"
proof (induction numx arbitrary: x i)
  case 0
  then show ?case by simp
next
  case (Suc numx)
  show ?case
  proof (cases i)
    case 0
    then show ?thesis by simp
  next
    case (Suc j)
    with Suc.prems have "j < numx" by simp
    then show ?thesis
      by (simp add: Suc Suc.IH add.commute)
  qed
qed

lemma NDIntegrand_loop_di_concat:
  assumes "\<forall>pt \<in> set pts. length pt = xdim"
  shows "NDIntegrand_loop_di xdim (length pts) (concat pts) params
           = map (point_di params xdim) pts"
  using assms
proof (induction pts)
  case Nil
  show ?case by simp
next
  case (Cons pt pts)
  then have len: "length pt = xdim" by simp
  have "point_di params xdim (pt @ concat pts)
          = point_di params xdim (take xdim (pt @ concat pts))"
    by (simp only: point_di_take)
  also have "\<dots> = point_di params xdim pt"
    using len by simp
  finally show ?case
    using Cons len by simp
qed

lemma NDIntegrand_loop_info_concat:
  assumes "\<forall>pt \<in> set pts. length pt = xdim"
  shows "NDIntegrand_loop_info xdim (length pts) (concat pts) params
           = map (point_info params xdim) pts"
  using assms
proof (induction pts)
  case Nil
  show ?case by simp
next
  case (Cons pt pts)
  then have len: "length pt = xdim" by simp
  have "point_info params xdim (pt @ concat pts)
          = point_info params xdim (take xdim (pt @ concat pts))"
    by (simp only: point_info_take)
  also have "\<dots> = point_info params xdim pt"
    using len by simp
  finally show ?case
    using Cons len by simp
qed

text \<open>
  Claim C9. For every coefficient array, every dimension and every batch of points of
  that dimension, each integrand returns for the batch exactly the list of the values
  it returns for the points one at a time: the value for a point depends on that point
  and the coefficients only, not on the size of the batch or the order of its points.
\<close>

theorem batch_is_pointwise:
  assumes "\<forall>pt \<in> set pts. length pt = xdim"
  shows "NDIntegrand_di xdim (length pts) (concat pts) params fdim
           = map (\<lambda>pt. hd (NDIntegrand_di xdim 1 pt params fdim)) pts
       \<and> NDIntegrand_info xdim (length pts) (concat pts) params fdim
           = map (\<lambda>pt. hd (NDIntegrand_info xdim 1 pt params fdim)) pts"
  using assms
  by (simp add: NDIntegrand_di_def NDIntegrand_info_def
      NDIntegrand_loop_di_concat NDIntegrand_loop_info_concat)

theorem batch_is_pointwise_witness:
  "length [0, 0 :: real] = 2 \<and> length [1, 2 :: real] = 2
   \<and> NDIntegrand_di 2 2 [0, 0, 1, 2] (diTheta_params2D 1 [1/2, 0, 0]) 1
       = [hd (NDIntegrand_di 2 1 [0, 0] (diTheta_params2D 1 [1/2, 0, 0]) 1),
          hd (NDIntegrand_di 2 1 [1, 2] (diTheta_params2D 1 [1/2, 0, 0]) 1)]
   \<and> NDIntegrand_info 2 2 [0, 0, 1, 2] (fst (infoGauss_params [1, 3] [1/2, 0, 0])) 1
       = [hd (NDIntegrand_info 2 1 [0, 0] (fst (infoGauss_params [1, 3] [1/2, 0, 0])) 1),
          hd (NDIntegrand_info 2 1 [1, 2] (fst (infoGauss_params [1, 3] [1/2, 0, 0])) 1)]"
  using batch_is_pointwise [of "[[0, 0], [1, 2]]" 2 "diTheta_params2D 1 [1/2, 0, 0]" 1]
    batch_is_pointwise [of "[[0, 0], [1, 2]]" 2 "fst (infoGauss_params [1, 3] [1/2, 0, 0])" 1]
  by (simp add: numeral_2_eq_2)

section \<open>The test for finiteness\<close>

text \<open>
  Claim C7, as amended. In both integrands, when the running sum is not finite after a
  class term, the loop over the classes ends and the value stored for the point is 0:
  the other class term and the final subtraction do not contribute. When the running sum
  is finite after both classes, the final term is subtracted, and the value stored is the
  difference if it is finite and 0 otherwise. Every point of the batch is evaluated in
  this way, whatever happened at the points before it.
\<close>

theorem guard_zeroes_point:
  "point_info params xdim x =
     (let s0 = class_step_info params xdim x 0 (Fin 0, Fin 0)
      in if \<not> isfinite (fst s0) then Fin 0
         else (let s1 = class_step_info params xdim x 1 s0
               in if \<not> isfinite (fst s1) then Fin 0
                  else (let v = fst s1 - snd s1 * dlog (snd s1)
                        in if isfinite v then v else Fin 0)))
   \<and> point_di params xdim x =
     (let s0 = class_step_di params xdim x 0 (Fin 0, Fin 0, Fin 0)
      in if \<not> isfinite (fst s0) then Fin 0
         else (let s1 = class_step_di params xdim x 1 s0
               in if \<not> isfinite (fst s1) then Fin 0
                  else (let v = fst s1 - fst (snd s1) * dlog (fst (snd s1) / snd (snd s1))
                        in if isfinite v then v else Fin 0)))
   \<and> (i < numx \<longrightarrow>
        NDIntegrand_info xdim numx x params fdim ! i = point_info params xdim (drop (i * xdim) x))
   \<and> (i < numx \<longrightarrow>
        NDIntegrand_di xdim numx x params fdim ! i = point_di params xdim (drop (i * xdim) x))"
  by (simp add: point_info_def point_di_def Let_def NDIntegrand_info_def NDIntegrand_di_def
      NDIntegrand_loop_info_nth NDIntegrand_loop_di_nth split: prod.splits)

theorem guard_zeroes_point_witness:
  "(1::nat) < 2
   \<and> NDIntegrand_info 2 2 [3, - 3, 0, 0] (fst (infoGauss_params [1, 3] [- 1, 0, 0])) 1 ! 1
       = point_info (fst (infoGauss_params [1, 3] [- 1, 0, 0])) 2 [0, 0]
   \<and> NDIntegrand_di 2 2 [3, - 3, 0, 0] (diTheta_params2D 1 [1/2, 0, 0]) 1 ! 1
       = point_di (diTheta_params2D 1 [1/2, 0, 0]) 2 [0, 0]"
  using guard_zeroes_point [of "fst (infoGauss_params [1, 3] [- 1, 0, 0])" 2 "[3, - 3, 0, 0]" 1 2 1]
    guard_zeroes_point [of "diTheta_params2D 1 [1/2, 0, 0]" 2 "[3, - 3, 0, 0]" 1 2 1]
  by simp

lemma coord_3_m3:
  "coord_loop 2 [3, - 3] (mu ! 0) (1, 0) = (- 8, 20)"
  "coord_loop 2 [3, - 3] (mu ! 1) (1, 0) = (- 8, 20)"
  "coord_loop 2 [3, - 3] (mu ! Suc 0) (1, 0) = (- 8, 20)"
  by (simp_all add: mu_def numeral_2_eq_2 Let_def)

lemma negative_weight_params:
  "fst (infoGauss_params [1, 3] [- 1, 0, 0])
     = [Fin (- 1), Fin 2, Fin (- 1 / (2 * pi)), Fin (2 / (2 * pi)), Fin 1, Fin 1, Fin 0, Fin 0]"
proof -
  have r: "\<bar>0::real\<bar> < 1" "max (1::int) 3 \<noteq> 1" by simp_all
  show ?thesis
    by (simp add: infoGauss_params_2D [OF r(1) r(1) r(2)])
qed

lemma negative_weight_psx:
  "psx_val (fst (infoGauss_params [1, 3] [- 1, 0, 0])) 0 s P = Fin (- (exp s / (2 * pi)))"
  "psx_val (fst (infoGauss_params [1, 3] [- 1, 0, 0])) 1 s P = Fin (2 * (exp s / (2 * pi)))"
  "psx_val (fst (infoGauss_params [1, 3] [- 1, 0, 0])) (Suc 0) s P = Fin (2 * (exp s / (2 * pi)))"
  unfolding negative_weight_params by (simp_all add: psx_val_def)

lemma negative_term_not_finite:
  assumes "0 < c"
  shows "\<not> isfinite (Fin 0 + Fin (- c) * dlog (Fin (- c)))"
  using assms by simp

lemma point_info_negative_weight:
  "point_info (fst (infoGauss_params [1, 3] [- 1, 0, 0])) 2 [3, - 3] = Fin 0"
proof -
  have c: "0 < exp (20 * (- 0.5)) / (2 * pi)" by simp
  have "\<not> isfinite (fst (class_step_info (fst (infoGauss_params [1, 3] [- 1, 0, 0])) 2 [3, - 3] 0
                            (Fin 0, Fin 0)))"
    unfolding class_step_info_def coord_3_m3 prod.case negative_weight_psx Let_def fst_conv
    by (rule negative_term_not_finite [OF c])
  then show ?thesis
    by (auto simp: point_info_def Let_def split: prod.splits)
qed

lemma per_term_eval:
  assumes "0 < c"
  shows "(if isfinite (Fin (- c) * dlog (Fin (- c))) then Fin (- c) * dlog (Fin (- c)) else Fin 0)
         + (if isfinite (Fin (2 * c) * dlog (Fin (2 * c)))
            then Fin (2 * c) * dlog (Fin (2 * c)) else Fin 0)
         - (Fin (- c) + Fin (2 * c)) * dlog (Fin (- c) + Fin (2 * c))
         = Fin (2 * c * ln (2 * c) - c * ln c)"
  using assms by simp

lemma point_info_per_term_negative_weight:
  "point_info_per_term (fst (infoGauss_params [1, 3] [- 1, 0, 0])) 2 [3, - 3]
     = Fin (2 * (exp (20 * (- 0.5)) / (2 * pi)) * ln (2 * (exp (20 * (- 0.5)) / (2 * pi)))
            - exp (20 * (- 0.5)) / (2 * pi) * ln (exp (20 * (- 0.5)) / (2 * pi)))"
proof -
  have c: "0 < exp (20 * (- 0.5)) / (2 * pi)" by simp
  show ?thesis
    unfolding point_info_per_term_def coord_3_m3 prod.case negative_weight_psx Let_def
    by (rule per_term_eval [OF c])
qed

text \<open>
  Claim C7 as stated fails. With \<open>p = -1\<close> and both correlations 0, at the point
  \<open>(3, -3)\<close> the density of the first class is negative, so its term is not a number.
  The entropy integrand stores 0 for the point, whereas replacing that term alone by 0
  and keeping the second class term and the final subtraction gives a value other than 0.
\<close>

theorem per_term_reading_counterexample:
  "point_info (fst (infoGauss_params [1, 3] [- 1, 0, 0])) 2 [3, - 3] = Fin 0
   \<and> point_info_per_term (fst (infoGauss_params [1, 3] [- 1, 0, 0])) 2 [3, - 3] \<noteq> Fin 0"
proof -
  define c where "c = exp (20 * (- 0.5)) / (2 * pi)"
  have c: "0 < c" by (simp add: c_def)
  have "ln c = - 10 - ln (2 * pi)"
    unfolding c_def by (simp add: ln_div)
  moreover have "0 < ln (2 * pi)"
    using pi_ge_two by (intro ln_gt_zero) linarith
  moreover have "ln 2 < (1::real)"
    by (rule ln_2_less_1)
  ultimately have neg: "2 * ln 2 + ln c < 0"
    by linarith
  have "2 * c * ln (2 * c) - c * ln c = c * (2 * ln 2 + ln c)"
    using c by (simp add: ln_mult algebra_simps)
  also have "\<dots> < 0"
    using c neg by (simp add: mult_pos_neg)
  finally have "2 * c * ln (2 * c) - c * ln c < 0" .
  then have ne: "2 * c * ln (2 * c) - c * ln c \<noteq> 0"
    by linarith
  define v where "v = 2 * c * ln (2 * c) - c * ln c"
  have "point_info_per_term (fst (infoGauss_params [1, 3] [- 1, 0, 0])) 2 [3, - 3] = Fin v"
    unfolding point_info_per_term_negative_weight c_def v_def ..
  moreover have "v \<noteq> 0"
    unfolding v_def by (rule ne)
  ultimately show ?thesis
    by (simp add: point_info_negative_weight)
qed

section \<open>The two densities\<close>

text \<open>
  Claim C6, as amended. On the two coefficient arrays of \<^verbatim>\<open>diTheta\<close>, for every sum
  of squares \<open>S\<close> and product \<open>P\<close>, the reference density does not carry the weight
  \<open>w k\<close> of the true density: \<open>pisx k = p k * exp (- th * S / 2)\<close>, where \<open>p k\<close> is the
  mixing weight in cell \<open>k\<close> of the array (\<open>p\<close> and \<open>1 - p\<close> in the two-dimensional call,
  \<open>1 - p\<close> and \<open>p\<close> in the one-dimensional call), while
  \<open>psx k = w k * exp (- a k * S / 2 + b k * P)\<close>. The two differ in the weight, in the
  scale (\<open>th\<close> against \<open>a k\<close>) and in the product term, which the reference density
  lacks.
\<close>

theorem reference_density_weight:
  assumes "valid_params [p, rho1, rho2]"
  shows "pisx_val (diTheta_params2D th [p, rho1, rho2]) 0 (S * (- 0.5))
           = Fin (p * exp (- 0.5 * th * S))
       \<and> pisx_val (diTheta_params2D th [p, rho1, rho2]) 1 (S * (- 0.5))
           = Fin ((1 - p) * exp (- 0.5 * th * S))
       \<and> psx_val (diTheta_params2D th [p, rho1, rho2]) 0 (S * (- 0.5)) P
           = Fin (p * sqrt (1 / (1 - rho1 * rho1)) / (2 * pi)
                  * exp (- 0.5 * (1 / (1 - rho1 * rho1)) * S + rho1 * (1 / (1 - rho1 * rho1)) * P))
       \<and> psx_val (diTheta_params2D th [p, rho1, rho2]) 1 (S * (- 0.5)) P
           = Fin ((1 - p) * sqrt (1 / (1 - rho2 * rho2)) / (2 * pi)
                  * exp (- 0.5 * (1 / (1 - rho2 * rho2)) * S + rho2 * (1 / (1 - rho2 * rho2)) * P))
       \<and> pisx_val (diTheta_params1D (diTheta_params2D th [p, rho1, rho2]) [p, rho1, rho2]) 0
             (S * (- 0.5))
           = Fin ((1 - p) * exp (- 0.5 * th * S))
       \<and> pisx_val (diTheta_params1D (diTheta_params2D th [p, rho1, rho2]) [p, rho1, rho2]) 1
             (S * (- 0.5))
           = Fin (p * exp (- 0.5 * th * S))
       \<and> psx_val (diTheta_params1D (diTheta_params2D th [p, rho1, rho2]) [p, rho1, rho2]) 0
             (S * (- 0.5)) P
           = Fin ((1 - p) / sqrt (2 * pi) * exp (- 0.5 * 1 * S + 0 * P))
       \<and> psx_val (diTheta_params1D (diTheta_params2D th [p, rho1, rho2]) [p, rho1, rho2]) 1
             (S * (- 0.5)) P
           = Fin (p / sqrt (2 * pi) * exp (- 0.5 * 1 * S + 0 * P))"
proof -
  from assms have r: "\<bar>rho1\<bar> < 1" "\<bar>rho2\<bar> < 1"
    by (simp_all add: valid_params_def)
  show ?thesis
    unfolding diTheta_params2D_list [OF r] diTheta_params1D_list
    by (simp add: psx_val_def pisx_val_def algebra_simps)
qed

theorem reference_density_weight_witness:
  "valid_params [1/2, 0, 0]
   \<and> pisx_val (diTheta_params2D 1 [1/2, 0, 0]) 0 (0 * (- 0.5)) = Fin (1/2 * exp (- 0.5 * 1 * 0))
   \<and> psx_val (diTheta_params2D 1 [1/2, 0, 0]) 0 (0 * (- 0.5)) 0
       = Fin (1/2 * sqrt (1 / (1 - 0 * 0)) / (2 * pi)
              * exp (- 0.5 * (1 / (1 - 0 * 0)) * 0 + 0 * (1 / (1 - 0 * 0)) * 0))"
proof -
  have v: "valid_params [1/2, 0, 0]"
    by (simp add: valid_params_def)
  from reference_density_weight [OF v, of 1 0 0] v show ?thesis
    by blast
qed

text \<open>
  Claim C6 as stated fails: with \<open>p = 1/2\<close>, both correlations 0 and \<open>th = 1\<close>, at a
  point where the sum of squares for the first class is 0 (the point \<open>(-1, -1)\<close>), the
  reference density is \<open>1/2\<close>, whereas \<open>w1 * exp (- th * S / 2)\<close> is \<open>1 / (4 * pi)\<close>.
\<close>

theorem shared_weight_counterexample:
  "pisx_val (diTheta_params2D 1 [1/2, 0, 0]) 0 (0 * (- 0.5))
     \<noteq> diTheta_params2D 1 [1/2, 0, 0] ! 2 * dexp (Fin (- 0.5) * Fin 1 * Fin 0)"
proof -
  have r: "\<bar>0::real\<bar> < 1" by simp
  have "pi \<noteq> 1 / 2"
    using pi_ge_two by linarith
  then show ?thesis
    unfolding diTheta_params2D_list [OF r r]
    by (simp add: pisx_val_def field_simps)
qed

section \<open>Valid parameters never reach the substitution of 0\<close>

lemma psx_val_Fin:
  assumes "k + 6 < length c"
  shows "psx_val (map Fin c) k s P
         = Fin (c ! (k + 2) * exp (c ! (k + 4) * s + c ! (k + 6) * P))"
  using assms by (simp add: psx_val_def)

lemma pisx_val_Fin:
  assumes "k + 8 < length c"
  shows "pisx_val (map Fin c) k s = Fin (c ! k * exp (c ! (k + 8) * s))"
  using assms by (simp add: pisx_val_def)

lemma class_step_di_Fin:
  assumes len: "k + 8 < length c" and pos: "0 < c ! k" "0 < c ! (k + 2)"
  shows "class_step_di (map Fin c) xdim x k (Fin d, Fin px, Fin pix) =
           (Fin (d + psx_real c xdim x k * ln (psx_real c xdim x k / pisx_real c xdim x k)),
            Fin (px + psx_real c xdim x k), Fin (pix + pisx_real c xdim x k))"
proof -
  obtain P S where ps: "coord_loop xdim x (mu ! k) (1, 0) = (P, S)"
    by (cases "coord_loop xdim x (mu ! k) (1, 0)")
  define s where "s = S * (- 0.5)"
  define a where "a = c ! (k + 2) * exp (c ! (k + 4) * s + c ! (k + 6) * P)"
  define b where "b = c ! k * exp (c ! (k + 8) * s)"
  have a: "0 < a" and b: "0 < b"
    using pos by (simp_all add: a_def b_def)
  have 1: "psx_val (map Fin c) k s P = Fin a"
    unfolding a_def using len by (intro psx_val_Fin) simp
  have 2: "pisx_val (map Fin c) k s = Fin b"
    unfolding b_def using len by (intro pisx_val_Fin) simp
  have 3: "psx_real c xdim x k = a" "pisx_real c xdim x k = b"
    by (simp_all add: psx_real_def pisx_real_def ps a_def b_def s_def)
  show ?thesis
    unfolding class_step_di_def ps prod.case Let_def s_def [symmetric] 1 2 3
    using a b by simp
qed

lemma class_step_info_Fin:
  assumes len: "k + 6 < length c" and pos: "0 < c ! (k + 2)"
  shows "class_step_info (map Fin c) xdim x k (Fin d, Fin px) =
           (Fin (d + psx_real c xdim x k * ln (psx_real c xdim x k)),
            Fin (px + psx_real c xdim x k))"
proof -
  obtain P S where ps: "coord_loop xdim x (mu ! k) (1, 0) = (P, S)"
    by (cases "coord_loop xdim x (mu ! k) (1, 0)")
  define s where "s = S * (- 0.5)"
  define a where "a = c ! (k + 2) * exp (c ! (k + 4) * s + c ! (k + 6) * P)"
  have a: "0 < a"
    using pos by (simp_all add: a_def)
  have 1: "psx_val (map Fin c) k s P = Fin a"
    unfolding a_def using len by (intro psx_val_Fin) simp
  have 3: "psx_real c xdim x k = a"
    by (simp_all add: psx_real_def ps a_def s_def)
  show ?thesis
    unfolding class_step_info_def ps prod.case Let_def s_def [symmetric] 1 3
    using a by simp
qed

lemma psx_real_pos: "0 < c ! (k + 2) \<Longrightarrow> 0 < psx_real c xdim x k"
  by (simp add: psx_real_def split: prod.splits)

lemma pisx_real_pos: "0 < c ! k \<Longrightarrow> 0 < pisx_real c xdim x k"
  by (simp add: pisx_real_def split: prod.splits)

lemma class_loop_di_Fin:
  assumes len: "10 \<le> length c" and pos: "0 < c ! 0" "0 < c ! 1" "0 < c ! 2" "0 < c ! 3"
  shows "class_loop_di (map Fin c) xdim x [0, 1] (Fin 0, Fin 0, Fin 0) =
           (Fin (psx_real c xdim x 0 * ln (psx_real c xdim x 0 / pisx_real c xdim x 0)
                 + psx_real c xdim x 1 * ln (psx_real c xdim x 1 / pisx_real c xdim x 1)),
            Fin (psx_real c xdim x 0 + psx_real c xdim x 1),
            Fin (pisx_real c xdim x 0 + pisx_real c xdim x 1))"
proof -
  have s0: "class_step_di (map Fin c) xdim x 0 (Fin 0, Fin 0, Fin 0) =
           (Fin (0 + psx_real c xdim x 0 * ln (psx_real c xdim x 0 / pisx_real c xdim x 0)),
            Fin (0 + psx_real c xdim x 0), Fin (0 + pisx_real c xdim x 0))"
    using len pos by (intro class_step_di_Fin) (simp_all add: numeral_2_eq_2 numeral_3_eq_3)
  have s1: "class_step_di (map Fin c) xdim x (Suc 0) (Fin d, Fin px, Fin pix) =
           (Fin (d + psx_real c xdim x (Suc 0)
                     * ln (psx_real c xdim x (Suc 0) / pisx_real c xdim x (Suc 0))),
            Fin (px + psx_real c xdim x (Suc 0)), Fin (pix + pisx_real c xdim x (Suc 0)))"
    for d px pix
    using len pos by (intro class_step_di_Fin) (simp_all add: numeral_2_eq_2 numeral_3_eq_3)
  show ?thesis
    by (simp add: s0 s1 Let_def)
qed

lemma point_di_Fin:
  assumes len: "10 \<le> length c" and pos: "0 < c ! 0" "0 < c ! 1" "0 < c ! 2" "0 < c ! 3"
  shows "point_di (map Fin c) xdim x = Fin (di_formula c xdim x)"
proof -
  have "0 < psx_real c xdim x 0 + psx_real c xdim x 1"
    using pos by (intro add_pos_pos psx_real_pos) (simp_all add: numeral_2_eq_2 numeral_3_eq_3)
  moreover have "0 < pisx_real c xdim x 0 + pisx_real c xdim x 1"
    using pos by (intro add_pos_pos pisx_real_pos) simp_all
  ultimately show ?thesis
    unfolding point_di_def class_loop_di_Fin [OF assms] di_formula_def
    by (simp add: Let_def)
qed

lemma class_loop_info_Fin:
  assumes len: "8 \<le> length c" and pos: "0 < c ! 2" "0 < c ! 3"
  shows "class_loop_info (map Fin c) xdim x [0, 1] (Fin 0, Fin 0) =
           (Fin (psx_real c xdim x 0 * ln (psx_real c xdim x 0)
                 + psx_real c xdim x 1 * ln (psx_real c xdim x 1)),
            Fin (psx_real c xdim x 0 + psx_real c xdim x 1))"
proof -
  have s0: "class_step_info (map Fin c) xdim x 0 (Fin 0, Fin 0) =
           (Fin (0 + psx_real c xdim x 0 * ln (psx_real c xdim x 0)),
            Fin (0 + psx_real c xdim x 0))"
    using len pos by (intro class_step_info_Fin) (simp_all add: numeral_2_eq_2 numeral_3_eq_3)
  have s1: "class_step_info (map Fin c) xdim x (Suc 0) (Fin d, Fin px) =
           (Fin (d + psx_real c xdim x (Suc 0) * ln (psx_real c xdim x (Suc 0))),
            Fin (px + psx_real c xdim x (Suc 0)))" for d px
    using len pos by (intro class_step_info_Fin) (simp_all add: numeral_2_eq_2 numeral_3_eq_3)
  show ?thesis
    by (simp add: s0 s1 Let_def)
qed

lemma point_info_Fin:
  assumes len: "8 \<le> length c" and pos: "0 < c ! 2" "0 < c ! 3"
  shows "point_info (map Fin c) xdim x = Fin (info_formula c xdim x)"
proof -
  have "0 < psx_real c xdim x 0 + psx_real c xdim x 1"
    using pos by (intro add_pos_pos psx_real_pos) (simp_all add: numeral_2_eq_2 numeral_3_eq_3)
  then show ?thesis
    unfolding point_info_def class_loop_info_Fin [OF assms] info_formula_def
    by (simp add: Let_def)
qed

lemma coeffs2D_pos:
  assumes "valid_params [p, rho1, rho2]"
  shows "0 < coeffs2D p rho1 rho2 ! 0" "0 < coeffs2D p rho1 rho2 ! 1"
    "0 < coeffs2D p rho1 rho2 ! 2" "0 < coeffs2D p rho1 rho2 ! 3"
proof -
  from assms have p: "0 < p" "p < 1" and r: "\<bar>rho1\<bar> < 1" "\<bar>rho2\<bar> < 1"
    by (simp_all add: valid_params_def)
  note q = rho_sq_pos [OF r(1)] rho_sq_pos [OF r(2)]
  show "0 < coeffs2D p rho1 rho2 ! 0" "0 < coeffs2D p rho1 rho2 ! 1"
    using p by (simp_all add: coeffs2D_def)
  show "0 < coeffs2D p rho1 rho2 ! 2" "0 < coeffs2D p rho1 rho2 ! 3"
    using p q by (simp_all add: coeffs2D_def numeral_2_eq_2 numeral_3_eq_3)
qed

lemma coeffs1D_pos:
  assumes "0 < p" "p < 1"
  shows "0 < coeffs1D p ! 0" "0 < coeffs1D p ! 1" "0 < coeffs1D p ! 2" "0 < coeffs1D p ! 3"
  using assms by (simp_all add: coeffs1D_def numeral_2_eq_2 numeral_3_eq_3)

text \<open>
  Claim C10. For valid parameters and every real \<open>th\<close>, the four coefficient arrays
  the two files build are arrays of finite numbers (\<open>c2\<close>, \<open>c1\<close> for \<^verbatim>\<open>diTheta\<close>,
  \<open>e2\<close>, \<open>e1\<close> for infoGauss.c). On them, at every sample point and for both classes,
  the densities \<open>psx\<close> and \<open>pisx\<close> are strictly positive, every class step maps a finite
  running state to a finite one, so the loop over the classes is never left early, and
  the value stored for the point is the formula without any test:
  \<open>\<Sum>k. psx k * ln (psx k / pisx k) - px * ln (px / pix)\<close> for the divergence integrand and
  \<open>\<Sum>k. psx k * ln (psx k) - px * ln px\<close> for the entropy integrand.
\<close>

theorem guard_unreachable:
  fixes p rho1 rho2 th :: real
  assumes "valid_params [p, rho1, rho2]"
  defines "c2 \<equiv> coeffs2D p rho1 rho2 @ [th, th]"
    and "c1 \<equiv> coeffs1D (1 - p) @ [th, th]"
    and "e2 \<equiv> coeffs2D p rho1 rho2"
    and "e1 \<equiv> coeffs1D p"
  shows "diTheta_params2D th [p, rho1, rho2] = map Fin c2
       \<and> diTheta_params1D (diTheta_params2D th [p, rho1, rho2]) [p, rho1, rho2] = map Fin c1
       \<and> (max m n \<noteq> 1 \<longrightarrow> fst (infoGauss_params [m, n] [p, rho1, rho2]) = map Fin e2)
       \<and> (max m n = 1 \<longrightarrow> fst (infoGauss_params [m, n] [p]) = map Fin e1)
       \<and> (\<forall>c \<in> {c2, c1}. \<forall>k < 2.
             0 < psx_real c xdim x k \<and> 0 < pisx_real c xdim x k
           \<and> class_step_di (map Fin c) xdim x k (Fin d, Fin px, Fin pix) =
               (Fin (d + psx_real c xdim x k * ln (psx_real c xdim x k / pisx_real c xdim x k)),
                Fin (px + psx_real c xdim x k), Fin (pix + pisx_real c xdim x k)))
       \<and> (\<forall>c \<in> {c2, c1}. point_di (map Fin c) xdim x = Fin (di_formula c xdim x))
       \<and> (\<forall>c \<in> {e2, e1}. \<forall>k < 2.
             0 < psx_real c xdim x k
           \<and> class_step_info (map Fin c) xdim x k (Fin d, Fin px) =
               (Fin (d + psx_real c xdim x k * ln (psx_real c xdim x k)),
                Fin (px + psx_real c xdim x k)))
       \<and> (\<forall>c \<in> {e2, e1}. point_info (map Fin c) xdim x = Fin (info_formula c xdim x))"
proof -
  from assms(1) have p: "0 < p" "p < 1" and r: "\<bar>rho1\<bar> < 1" "\<bar>rho2\<bar> < 1"
    by (simp_all add: valid_params_def)
  have q: "0 < 1 - p" "1 - p < 1" using p by simp_all
  have A: "diTheta_params2D th [p, rho1, rho2] = map Fin c2"
    by (simp add: diTheta_params2D_list [OF r] c2_def coeffs2D_def)
  have B: "diTheta_params1D (diTheta_params2D th [p, rho1, rho2]) [p, rho1, rho2] = map Fin c1"
    by (simp add: diTheta_params2D_list [OF r] diTheta_params1D_list c1_def coeffs1D_def)
  have C: "max m n \<noteq> 1 \<longrightarrow> fst (infoGauss_params [m, n] [p, rho1, rho2]) = map Fin e2"
    by (simp add: infoGauss_params_2D [OF r] e2_def coeffs2D_def)
  have D: "max m n = 1 \<longrightarrow> fst (infoGauss_params [m, n] [p]) = map Fin e1"
    by (simp add: infoGauss_params_1D e1_def coeffs1D_def)
  have len: "10 \<le> length c2" "10 \<le> length c1" "8 \<le> length e2" "8 \<le> length e1"
    by (simp_all add: c2_def c1_def e2_def e1_def coeffs2D_def coeffs1D_def)
  have pos2: "0 < c2 ! 0" "0 < c2 ! 1" "0 < c2 ! 2" "0 < c2 ! 3"
    using coeffs2D_pos [OF assms(1)] by (simp_all add: c2_def nth_append coeffs2D_def)
  have pos1: "0 < c1 ! 0" "0 < c1 ! 1" "0 < c1 ! 2" "0 < c1 ! 3"
    using coeffs1D_pos [OF q] by (simp_all add: c1_def nth_append coeffs1D_def)
  have pose2: "0 < e2 ! 2" "0 < e2 ! 3"
    using coeffs2D_pos [OF assms(1)] by (simp_all add: e2_def)
  have pose1: "0 < e1 ! 2" "0 < e1 ! 3"
    using coeffs1D_pos [OF p] by (simp_all add: e1_def)
  have E: "0 < psx_real c xdim x k \<and> 0 < pisx_real c xdim x k
           \<and> class_step_di (map Fin c) xdim x k (Fin d, Fin px, Fin pix) =
               (Fin (d + psx_real c xdim x k * ln (psx_real c xdim x k / pisx_real c xdim x k)),
                Fin (px + psx_real c xdim x k), Fin (pix + pisx_real c xdim x k))"
    if "10 \<le> length c" "0 < c ! 0" "0 < c ! 1" "0 < c ! 2" "0 < c ! 3" "k < 2" for c k
  proof -
    from that have k: "k + 8 < length c" "0 < c ! k" "0 < c ! (k + 2)"
      by (auto simp: numeral_2_eq_2 numeral_3_eq_3 less_Suc_eq)
    from class_step_di_Fin [OF k] psx_real_pos [OF k(3)] pisx_real_pos [OF k(2)]
    show ?thesis by simp
  qed
  have F: "0 < psx_real c xdim x k
           \<and> class_step_info (map Fin c) xdim x k (Fin d, Fin px) =
               (Fin (d + psx_real c xdim x k * ln (psx_real c xdim x k)),
                Fin (px + psx_real c xdim x k))"
    if "8 \<le> length c" "0 < c ! 2" "0 < c ! 3" "k < 2" for c k
  proof -
    from that have k: "k + 6 < length c" "0 < c ! (k + 2)"
      by (auto simp: numeral_2_eq_2 numeral_3_eq_3 less_Suc_eq)
    from class_step_info_Fin [OF k] psx_real_pos [OF k(2)]
    show ?thesis by simp
  qed
  show ?thesis
    using A B C D E [OF len(1) pos2] E [OF len(2) pos1]
      point_di_Fin [OF len(1) pos2] point_di_Fin [OF len(2) pos1]
      F [OF len(3) pose2] F [OF len(4) pose1]
      point_info_Fin [OF len(3) pose2] point_info_Fin [OF len(4) pose1]
    by blast
qed

theorem guard_unreachable_witness:
  "valid_params [1/2, 0, 0]
   \<and> point_di (diTheta_params2D 1 [1/2, 0, 0]) 2 [0, 0]
       = Fin (di_formula (coeffs2D (1/2) 0 0 @ [1, 1]) 2 [0, 0])
   \<and> point_di (diTheta_params1D (diTheta_params2D 1 [1/2, 0, 0]) [1/2, 0, 0]) 1 [0]
       = Fin (di_formula (coeffs1D (1 - 1/2) @ [1, 1]) 1 [0])
   \<and> point_info (fst (infoGauss_params [1, 3] [1/2, 0, 0])) 2 [0, 0]
       = Fin (info_formula (coeffs2D (1/2) 0 0) 2 [0, 0])
   \<and> 0 < psx_real (coeffs2D (1/2) 0 0) 2 [0, 0] 1"
proof -
  have v: "valid_params [1/2, 0, 0]"
    by (simp add: valid_params_def)
  have m: "max (1::int) 3 \<noteq> 1" "(1::nat) < 2" by simp_all
  from guard_unreachable [OF v, of 1 1 3 2 "[0, 0]" 0 0 0]
    guard_unreachable [OF v, of 1 1 3 1 "[0]" 0 0 0] m v
  show ?thesis
    by (metis insertI1 insertI2)
qed

end
